theory Spec2Isabelle
  imports Complex_Main
begin

section \<open>JavaScript values used by the ride-tracking core\<close>

text \<open>
  JavaScript numbers are modelled as mathematical reals: the sums, products and
  trigonometric functions below are the exact ones, not their IEEE-754 roundings.
  A field that may be unset is a \<open>jsnum\<close>: \<open>None\<close> stands for \<open>undefined\<close>, \<open>null\<close>
  and \<open>NaN\<close>, which the code only ever tests for truthiness or replaces by a default.
\<close>

type_synonym jsnum = "real option"

text \<open>Truthiness of a number: \<open>!x\<close> holds for \<open>undefined\<close>, \<open>null\<close>, \<open>NaN\<close> and \<open>0\<close>.\<close>

definition truthy :: "jsnum \<Rightarrow> bool" where
  "truthy x = (case x of None \<Rightarrow> False | Some v \<Rightarrow> v \<noteq> 0)"

text \<open>\<open>x || 0\<close>\<close>

definition or_zero :: "jsnum \<Rightarrow> real" where
  "or_zero x = (case x of None \<Rightarrow> 0 | Some v \<Rightarrow> v)"

text \<open>\<open>x > 0\<close>, false for an unset value.\<close>

definition gt_zero :: "jsnum \<Rightarrow> bool" where
  "gt_zero x = (case x of None \<Rightarrow> False | Some v \<Rightarrow> 0 < v)"

text \<open>\<open>Math.atan2(y, x)\<close>, with \<open>atan2(0, 0) = 0\<close> as in ECMAScript.\<close>

definition js_atan2 :: "real \<Rightarrow> real \<Rightarrow> real" where
  "js_atan2 y x =
     (if 0 < x then arctan (y / x)
      else if x < 0 then (if 0 \<le> y then arctan (y / x) + pi else arctan (y / x) - pi)
      else if 0 < y then pi / 2
      else if y < 0 then - (pi / 2)
      else 0)"

text \<open>\<open>Math.round\<close>: the nearest integer, a half rounding up.\<close>

definition js_round :: "real \<Rightarrow> int" where
  "js_round x = \<lfloor>x + 1 / 2\<rfloor>"

text \<open>
  \<open>x.toFixed(d)\<close>, as the number its string denotes: the nearest multiple of \<open>10^-d\<close>,
  a half rounding away from zero.
\<close>

definition toFixed :: "nat \<Rightarrow> real \<Rightarrow> real" where
  "toFixed d x =
     (if x < 0 then - (real_of_int \<lfloor>- x * 10 ^ d + 1 / 2\<rfloor> / 10 ^ d)
      else real_of_int \<lfloor>x * 10 ^ d + 1 / 2\<rfloor> / 10 ^ d)"

section \<open>Distance calculator\<close>

text \<open>\<open>deg2rad\<close> of \<open>useStats.js\<close> and of the tracking context.\<close>

definition deg2rad :: "real \<Rightarrow> real" where
  "deg2rad deg = deg * (pi / 180)"

text \<open>
  \<open>calculateDistance\<close> of the tracking context (kilometres). After the guard all
  four coordinates are non-zero numbers.
\<close>

definition ctx_calculateDistance :: "jsnum \<Rightarrow> jsnum \<Rightarrow> jsnum \<Rightarrow> jsnum \<Rightarrow> real" where
  "ctx_calculateDistance lat1 lon1 lat2 lon2 =
     (if \<not> truthy lat1 \<or> \<not> truthy lon1 \<or> \<not> truthy lat2 \<or> \<not> truthy lon2 then 0
      else
        let R = 6371;
            dLat = deg2rad (the lat2 - the lat1);
            dLon = deg2rad (the lon2 - the lon1);
            a = sin (dLat / 2) * sin (dLat / 2) +
                cos (deg2rad (the lat1)) * cos (deg2rad (the lat2)) *
                sin (dLon / 2) * sin (dLon / 2);
            c = 2 * js_atan2 (sqrt a) (sqrt (1 - a));
            distance = R * c
        in distance)"

text \<open>
  \<open>calculateDistance\<close> of the statistics hook \<open>useStats\<close>: the same formula, returned in
  miles when the preferred unit is \<open>'mi'\<close>.
\<close>

definition calculateDistance :: "string \<Rightarrow> jsnum \<Rightarrow> jsnum \<Rightarrow> jsnum \<Rightarrow> jsnum \<Rightarrow> real" where
  "calculateDistance preferredUnit lat1 lon1 lat2 lon2 =
     (if \<not> truthy lat1 \<or> \<not> truthy lon1 \<or> \<not> truthy lat2 \<or> \<not> truthy lon2 then 0
      else
        let R = 6371;
            dLat = deg2rad (the lat2 - the lat1);
            dLon = deg2rad (the lon2 - the lon1);
            a = sin (dLat / 2) * sin (dLat / 2) +
                cos (deg2rad (the lat1)) * cos (deg2rad (the lat2)) *
                sin (dLon / 2) * sin (dLon / 2);
            c = 2 * js_atan2 (sqrt a) (sqrt (1 - a));
            distanceKm = R * c
        in if preferredUnit = ''mi'' then distanceKm * 0.621371 else distanceKm)"

section \<open>Location samples\<close>

text \<open>
  A route point as both controllers store it:
  \<open>{latitude, longitude, timestamp, speed, altitude}\<close>. Timestamps are milliseconds.
\<close>

record point =
  latitude :: jsnum
  longitude :: jsnum
  timestamp :: int
  speed :: jsnum
  altitude :: jsnum

text \<open>
  A location object as the geolocation source delivers it: \<open>{coords: {latitude,
  longitude, speed, altitude}, timestamp}\<close>.
\<close>

record location =
  coords_latitude :: jsnum
  coords_longitude :: jsnum
  coords_speed :: jsnum
  coords_altitude :: jsnum
  loc_timestamp :: int

section \<open>The statistics hook (\<open>useStats.js\<close>)\<close>

text \<open>
  The hook closes over \<open>preferredUnit\<close> (a string of the user's settings, or the
  \<open>unit\<close> option), the user's weight setting and the \<open>duration\<close> option; they are
  parameters here.
\<close>

definition formatSpeed :: "string \<Rightarrow> jsnum \<Rightarrow> real" where
  "formatSpeed preferredUnit speedMs =
     (if \<not> truthy speedMs then 0
      else let speedKmh = the speedMs * 3.6
           in if preferredUnit = ''mi'' then speedKmh * 0.621371 else speedKmh)"

text \<open>
  \<open>calculateCalories\<close>. The product is taken exactly here; the code forms it in double
  arithmetic before \<open>Math.round\<close>, so where the exact product ends in .5 (3150 s at
  MET 8.0 and 70 kg: 857.5) the code can round the other way (857 for 858). What is
  proved of the estimate below is a distance to the product that holds either way.
\<close>

definition calculateCalories :: "jsnum \<Rightarrow> real \<Rightarrow> real \<Rightarrow> real \<Rightarrow> int" where
  "calculateCalories userWeight durationSec distanceKm averageSpeedKmh =
     (let metValue =
            (if averageSpeedKmh < 16 then 4.0
             else if averageSpeedKmh < 20 then 6.8
             else if averageSpeedKmh < 25 then 8.0
             else 10.0);
          weight = (if truthy userWeight then the userWeight else 70);
          durationHr = durationSec / 3600
      in js_round (metValue * 3.5 * weight * durationHr / 200 * 100))"

text \<open>The loop of \<open>calculateElevationGain\<close>, from index 1, over consecutive pairs.\<close>

fun elevationLoop :: "point list \<Rightarrow> real \<Rightarrow> real" where
  "elevationLoop (prevPt # cur # rest) totalGain =
     elevationLoop (cur # rest)
       (let currentAlt = or_zero (altitude cur);
            prevAlt = or_zero (altitude prevPt)
        in if currentAlt > prevAlt then totalGain + (currentAlt - prevAlt) else totalGain)"
| "elevationLoop [p] totalGain = totalGain"
| "elevationLoop [] totalGain = totalGain"

definition calculateElevationGain :: "point list \<Rightarrow> real" where
  "calculateElevationGain routeData =
     (if length routeData < 2 then 0 else elevationLoop routeData 0)"

text \<open>
  \<open>calculatePace\<close>: \<open>None\<close> is the \<open>Infinity\<close> it returns for a zero speed; the
  \<open>formatted\<close> string of the result is left out. Quotient and seconds are exact here;
  the code floors doubles, which gives one second less where the exact seconds are a whole
  number that the double product falls just short of (45 km/h: 19 for 20). The examples
  below use speeds at which both give the same seconds.
\<close>

record pace =
  minutes :: int
  seconds :: int

definition calculatePace :: "real \<Rightarrow> pace option" where
  "calculatePace speedKmh =
     (if speedKmh = 0 then None
      else let minutesPerUnit = 60 / speedKmh;
               mins = \<lfloor>minutesPerUnit\<rfloor>;
               secs = \<lfloor>(minutesPerUnit - real_of_int mins) * 60\<rfloor>
           in Some \<lparr>minutes = mins, seconds = secs\<rparr>)"

text \<open>
  The local variables of \<open>processRouteData\<close>'s loop. \<open>minSpeed = None\<close> is the initial
  \<open>Infinity\<close>. A series entry is a pair of a timestamp and a value.
\<close>

record loop_vars =
  totalDistance :: real
  maxSpeed :: real
  minSpeed :: "real option"
  speedSum :: real
  speedCount :: nat
  speedData :: "(int \<times> real) list"
  altitudeData :: "(int \<times> real) list"
  pacesData :: "(int \<times> real) list"

definition loop_init :: loop_vars where
  "loop_init =
     \<lparr>totalDistance = 0, maxSpeed = 0, minSpeed = None, speedSum = 0, speedCount = 0,
      speedData = [], altitudeData = [], pacesData = []\<rparr>"

text \<open>One iteration of the loop, for \<open>prevPoint = routeData[i-1]\<close> and
  \<open>currentPoint = routeData[i]\<close>. The first branch is the \<open>continue\<close>.\<close>

definition loop_body :: "string \<Rightarrow> point \<Rightarrow> point \<Rightarrow> loop_vars \<Rightarrow> loop_vars" where
  "loop_body preferredUnit prevPoint currentPoint v =
     (let segmentDistance =
            calculateDistance preferredUnit (latitude prevPoint) (longitude prevPoint)
              (latitude currentPoint) (longitude currentPoint)
      in if segmentDistance > 0.1 then v
         else
           let v1 = v\<lparr>totalDistance := totalDistance v + segmentDistance\<rparr>;
               spd = (if truthy (speed currentPoint)
                      then formatSpeed preferredUnit (speed currentPoint) else 0);
               v2 = (if spd > 0 then
                       let v3 = v1\<lparr>maxSpeed := max (maxSpeed v1) spd,
                                   minSpeed := (case minSpeed v1 of None \<Rightarrow> Some spd
                                                | Some m \<Rightarrow> Some (min m spd)),
                                   speedSum := speedSum v1 + spd,
                                   speedCount := Suc (speedCount v1),
                                   speedData := speedData v1 @
                                     [(timestamp currentPoint, toFixed 1 spd)]\<rparr>
                       in (case calculatePace spd of
                             None \<Rightarrow> v3
                           | Some p \<Rightarrow>
                               if minutes p < 60
                               then v3\<lparr>pacesData := pacesData v3 @
                                      [(timestamp currentPoint,
                                        real_of_int (minutes p) + real_of_int (seconds p) / 60)]\<rparr>
                               else v3)
                     else v1)
           in if truthy (altitude currentPoint)
              then v2\<lparr>altitudeData := altitudeData v2 @
                     [(timestamp currentPoint, toFixed 1 (the (altitude currentPoint)))]\<rparr>
              else v2)"

fun route_loop :: "string \<Rightarrow> point list \<Rightarrow> loop_vars \<Rightarrow> loop_vars" where
  "route_loop preferredUnit (prevPoint # currentPoint # rest) v =
     route_loop preferredUnit (currentPoint # rest)
       (loop_body preferredUnit prevPoint currentPoint v)"
| "route_loop preferredUnit [p] v = v"
| "route_loop preferredUnit [] v = v"

text \<open>
  The \<open>stats\<close> object that \<open>processRouteData\<close> sets. The \<open>toFixed\<close> strings are
  represented by the numbers they denote.
\<close>

record hook_stats =
  hs_distance :: real
  hs_averageSpeed :: real
  hs_maxSpeed :: real
  hs_minSpeed :: real
  hs_elevationGain :: real
  hs_caloriesBurned :: int
  hs_speedData :: "(int \<times> real) list"
  hs_altitudeData :: "(int \<times> real) list"
  hs_pacesData :: "(int \<times> real) list"

definition processRouteData :: "string \<Rightarrow> jsnum \<Rightarrow> real \<Rightarrow> point list \<Rightarrow> hook_stats" where
  "processRouteData preferredUnit userWeight duration routeData =
     (if length routeData < 2 then
        \<lparr>hs_distance = 0, hs_averageSpeed = 0, hs_maxSpeed = 0, hs_minSpeed = 0,
         hs_elevationGain = 0, hs_caloriesBurned = 0,
         hs_speedData = [], hs_altitudeData = [], hs_pacesData = []\<rparr>
      else
        let v = route_loop preferredUnit routeData loop_init;
            averageSpeed = (if speedCount v > 0 then speedSum v / real (speedCount v) else 0);
            elevationGain = calculateElevationGain routeData;
            caloriesBurned = calculateCalories userWeight duration (totalDistance v) averageSpeed
        in \<lparr>hs_distance = toFixed 2 (totalDistance v),
            hs_averageSpeed = toFixed 1 averageSpeed,
            hs_maxSpeed = toFixed 1 (maxSpeed v),
            hs_minSpeed = (case minSpeed v of None \<Rightarrow> 0 | Some m \<Rightarrow> toFixed 1 m),
            hs_elevationGain = toFixed 1 elevationGain,
            hs_caloriesBurned = caloriesBurned,
            hs_speedData = speedData v,
            hs_altitudeData = altitudeData v,
            hs_pacesData = pacesData v\<rparr>)"

text \<open>\<open>convertDistance\<close>, the hook's helper for converting between km and miles.\<close>

definition convertDistance :: "string \<Rightarrow> real \<Rightarrow> string \<Rightarrow> real" where
  "convertDistance preferredUnit distance toUnit =
     (if toUnit = ''km'' \<and> preferredUnit = ''mi'' then toFixed 2 (distance / 0.621371)
      else if toUnit = ''mi'' \<and> preferredUnit = ''km'' then toFixed 2 (distance * 0.621371)
      else distance)"

section \<open>The tracking context (\<open>TrackingProvider\<close>)\<close>

text \<open>
  The provider's React state (\<open>isTracking\<close>, \<open>currentLocation\<close>, \<open>route\<close>, \<open>stats\<close>) and
  refs, together with what its operations act on outside: the user's \<open>rides\<close> collection
  in the document store, the live subscriptions of the geolocation source
  (\<open>watchers\<close>) and the alerts shown. Server timestamps and the \<open>summary\<close> block of a ride
  document repeat the fields kept here and are left out. State updates are taken as
  applied in program order.
\<close>

record ctx_stats =
  cs_distance :: real
  cs_currentSpeed :: real
  cs_averageSpeed :: real
  cs_maxSpeed :: real
  cs_duration :: real
  cs_startTime :: "int option"
  cs_endTime :: "int option"

record ride_doc =
  rd_status :: string
  rd_duration :: real
  rd_distance :: real
  rd_averageSpeed :: real
  rd_maxSpeed :: real
  rd_route :: "point list"

record ctx_state =
  isTracking :: bool
  currentLocation :: "point option"
  route :: "point list"
  stats :: ctx_stats
  locationSubscription :: "nat option"
  activityDocRef :: "nat option"
  startTimeRef :: "int option"
  lastLocationRef :: "(jsnum \<times> jsnum) option"
  rides :: "(nat \<times> ride_doc) list"
  watchers :: "nat list"
  alerts :: "(string \<times> string) list"

text \<open>The provider as mounted: the initial values of \<open>useState\<close> and \<open>useRef\<close>.\<close>

definition ctx_initial :: ctx_state where
  "ctx_initial =
     \<lparr>isTracking = False, currentLocation = None, route = [],
      stats = \<lparr>cs_distance = 0, cs_currentSpeed = 0, cs_averageSpeed = 0, cs_maxSpeed = 0,
               cs_duration = 0, cs_startTime = None, cs_endTime = None\<rparr>,
      locationSubscription = None, activityDocRef = None, startTimeRef = None,
      lastLocationRef = None, rides = [], watchers = [], alerts = []\<rparr>"

text \<open>
  What the outside answers during \<open>startTracking\<close>: the permission status, the
  current position (or the message of the error thrown), the two readings of the clock,
  the id of the document \<open>addDoc\<close> creates (or its error) and the handle
  \<open>watchPositionAsync\<close> returns (or its error).
\<close>

record ctx_start_env =
  perm_status :: string
  position :: "string + location"
  now_reset :: int
  now_ref :: int
  addDoc_result :: "string + nat"
  watch_result :: "string + nat"

definition locationData_of :: "location \<Rightarrow> point" where
  "locationData_of loc =
     \<lparr>latitude = coords_latitude loc, longitude = coords_longitude loc,
      timestamp = loc_timestamp loc, speed = Some (or_zero (coords_speed loc)),
      altitude = Some (or_zero (coords_altitude loc))\<rparr>"

definition ctx_alert :: "string \<Rightarrow> string \<Rightarrow> ctx_state \<Rightarrow> ctx_state" where
  "ctx_alert title msg s = s\<lparr>alerts := alerts s @ [(title, msg)]\<rparr>"

text \<open>\<open>startTracking\<close> from the point where the refs are set.\<close>

definition ctx_start_watch :: "ctx_start_env \<Rightarrow> location \<Rightarrow> ctx_state \<Rightarrow> ctx_state" where
  "ctx_start_watch env loc s =
     (let s1 = s\<lparr>startTimeRef := Some (now_ref env),
                 lastLocationRef := Some (coords_latitude loc, coords_longitude loc)\<rparr>;
          locationData = locationData_of loc;
          s2 = s1\<lparr>route := [locationData], currentLocation := Some locationData\<rparr>
      in case watch_result env of
           Inl msg \<Rightarrow> ctx_alert ''Error'' msg s2
         | Inr h \<Rightarrow> s2\<lparr>locationSubscription := Some h, watchers := watchers s2 @ [h],
                      isTracking := True\<rparr>)"

definition ctx_startTracking :: "string option \<Rightarrow> ctx_start_env \<Rightarrow> ctx_state \<Rightarrow> ctx_state" where
  "ctx_startTracking user env s =
     (if isTracking s then s
      else if perm_status env \<noteq> ''granted''
      then ctx_alert ''Error'' ''Location permission is required to track your ride.'' s
      else case position env of
             Inl msg \<Rightarrow> ctx_alert ''Error'' msg s
           | Inr loc \<Rightarrow>
               let s1 = s\<lparr>route := [],
                           stats := \<lparr>cs_distance = 0, cs_currentSpeed = 0, cs_averageSpeed = 0,
                                     cs_maxSpeed = 0, cs_duration = 0,
                                     cs_startTime = Some (now_reset env), cs_endTime = None\<rparr>\<rparr>
               in (case user of
                    None \<Rightarrow> ctx_start_watch env loc s1
                  | Some uid \<Rightarrow>
                      (case addDoc_result env of
                         Inl msg \<Rightarrow> ctx_alert ''Error'' msg s1
                       | Inr d \<Rightarrow>
                           ctx_start_watch env loc
                             (s1\<lparr>rides := rides s1 @
                                   [(d, \<lparr>rd_status = ''active'', rd_duration = 0, rd_distance = 0,
                                         rd_averageSpeed = 0, rd_maxSpeed = 0, rd_route = []\<rparr>)],
                                 activityDocRef := Some d\<rparr>))))"

text \<open>
  \<open>updateStats\<close>: the functional update of \<open>stats\<close>, reading and writing
  \<open>lastLocationRef\<close>. \<open>now\<close> is the clock read by \<open>new Date()\<close>; a null
  \<open>startTimeRef\<close> counts as 0 in the subtraction.
\<close>

definition updateStats :: "int \<Rightarrow> point \<Rightarrow> ctx_state \<Rightarrow> ctx_state" where
  "updateStats now newLocation s =
     (let prevStats = stats s;
          newDistance =
            (case lastLocationRef s of
               None \<Rightarrow> cs_distance prevStats
             | Some (lat, lon) \<Rightarrow>
                 let segmentDistance =
                       ctx_calculateDistance lat lon (latitude newLocation) (longitude newLocation)
                 in if segmentDistance < 0.1 then cs_distance prevStats + segmentDistance
                    else cs_distance prevStats);
          currentSpeed = (if truthy (speed newLocation) then the (speed newLocation) * 3.6 else 0);
          maxSpeed = max (cs_maxSpeed prevStats) currentSpeed;
          duration = real_of_int (now - (case startTimeRef s of None \<Rightarrow> 0 | Some t \<Rightarrow> t)) / 1000;
          averageSpeed = (if duration > 0 then newDistance / (duration / 3600) else 0)
      in s\<lparr>lastLocationRef := Some (latitude newLocation, longitude newLocation),
           stats := \<lparr>cs_distance = newDistance, cs_currentSpeed = currentSpeed,
                     cs_averageSpeed = averageSpeed, cs_maxSpeed = maxSpeed,
                     cs_duration = duration, cs_startTime = cs_startTime prevStats,
                     cs_endTime = None\<rparr>\<rparr>)"

definition handleLocationUpdate :: "int \<Rightarrow> location \<Rightarrow> ctx_state \<Rightarrow> ctx_state" where
  "handleLocationUpdate now loc s =
     (let locationData = locationData_of loc;
          s1 = s\<lparr>currentLocation := Some locationData\<rparr>;
          s2 = s1\<lparr>route := route s1 @ [locationData]\<rparr>
      in updateStats now locationData s2)"

text \<open>The samples of a subscription, each with the clock at its delivery, in order.\<close>

fun ctx_feed :: "(int \<times> location) list \<Rightarrow> ctx_state \<Rightarrow> ctx_state" where
  "ctx_feed [] s = s"
| "ctx_feed ((now, loc) # rest) s = ctx_feed rest (handleLocationUpdate now loc s)"

text \<open>\<open>locationSubscription.current.remove()\<close> and the reset of the ref.\<close>

definition ctx_unsubscribe :: "ctx_state \<Rightarrow> ctx_state" where
  "ctx_unsubscribe s =
     (case locationSubscription s of
        None \<Rightarrow> s
      | Some h \<Rightarrow> s\<lparr>watchers := removeAll h (watchers s), locationSubscription := None\<rparr>)"

text \<open>\<open>updateDoc\<close> on the ride document \<open>d\<close>.\<close>

fun ctx_updateDoc :: "nat \<Rightarrow> (ride_doc \<Rightarrow> ride_doc) \<Rightarrow> (nat \<times> ride_doc) list \<Rightarrow> (nat \<times> ride_doc) list" where
  "ctx_updateDoc d f [] = []"
| "ctx_updateDoc d f ((k, doc) # rest) =
     (if k = d then (k, f doc) # ctx_updateDoc d f rest else (k, doc) # ctx_updateDoc d f rest)"

text \<open>\<open>pauseTracking\<close>; \<open>update_error\<close> is the message of the error \<open>updateDoc\<close> throws,
  if it throws.\<close>

definition ctx_pauseTracking :: "string option \<Rightarrow> string option \<Rightarrow> ctx_state \<Rightarrow> ctx_state" where
  "ctx_pauseTracking user update_error s =
     (if \<not> isTracking s then s
      else
        let s1 = ctx_unsubscribe s;
            s2 = s1\<lparr>isTracking := False\<rparr>
        in case (user, activityDocRef s2) of
             (Some uid, Some d) \<Rightarrow>
               (case update_error of
                  Some msg \<Rightarrow> ctx_alert ''Error'' ''Failed to pause tracking'' s2
                | None \<Rightarrow>
                    s2\<lparr>rides := ctx_updateDoc d
                         (\<lambda>doc. doc\<lparr>rd_status := ''paused'', rd_duration := cs_duration (stats s),
                                    rd_distance := cs_distance (stats s),
                                    rd_averageSpeed := cs_averageSpeed (stats s),
                                    rd_maxSpeed := cs_maxSpeed (stats s)\<rparr>)
                         (rides s2)\<rparr>)
           | _ \<Rightarrow> s2)"

text \<open>\<open>resumeTracking\<close>; \<open>watch\<close> is the handle of the new subscription or the error.\<close>

definition ctx_resumeTracking ::
  "string option \<Rightarrow> string + nat \<Rightarrow> string option \<Rightarrow> ctx_state \<Rightarrow> ctx_state" where
  "ctx_resumeTracking user watch update_error s =
     (if isTracking s then s
      else case watch of
             Inl msg \<Rightarrow> ctx_alert ''Error'' ''Failed to resume tracking'' s
           | Inr h \<Rightarrow>
               let s1 = s\<lparr>locationSubscription := Some h, watchers := watchers s @ [h],
                           isTracking := True\<rparr>
               in (case (user, activityDocRef s1) of
                    (Some uid, Some d) \<Rightarrow>
                      (case update_error of
                         Some msg \<Rightarrow> ctx_alert ''Error'' ''Failed to resume tracking'' s1
                       | None \<Rightarrow>
                           s1\<lparr>rides := ctx_updateDoc d (\<lambda>doc. doc\<lparr>rd_status := ''active''\<rparr>)
                                 (rides s1)\<rparr>)
                  | _ \<Rightarrow> s1))"

text \<open>
  \<open>stopTracking\<close>: the result is \<open>None\<close> for the \<open>null\<close> of the \<open>catch\<close> branch, and
  otherwise the final stats and a copy of the route. \<open>stats.startTime.toISOString()\<close>
  throws when the start time is null.
\<close>

definition ctx_stopTracking ::
  "string option \<Rightarrow> int \<Rightarrow> string option \<Rightarrow> ctx_state \<Rightarrow> (ctx_stats \<times> point list) option \<times> ctx_state" where
  "ctx_stopTracking user endTime update_error s =
     (let s1 = ctx_unsubscribe s;
          s2 = s1\<lparr>stats := (stats s1)\<lparr>cs_endTime := Some endTime\<rparr>\<rparr>;
          failed = (None, ctx_alert ''Error'' ''Failed to save your ride'' s2);
          finish = (\<lambda>s3. (Some ((stats s)\<lparr>cs_endTime := Some endTime\<rparr>, route s),
                           s3\<lparr>isTracking := False, activityDocRef := None,
                              startTimeRef := None, lastLocationRef := None\<rparr>))
      in case (user, activityDocRef s2) of
           (Some uid, Some d) \<Rightarrow>
             (case cs_startTime (stats s) of
                None \<Rightarrow> failed
              | Some t \<Rightarrow>
                  (case update_error of
                     Some msg \<Rightarrow> failed
                   | None \<Rightarrow>
                       finish (s2\<lparr>rides := ctx_updateDoc d
                                 (\<lambda>doc. doc\<lparr>rd_status := ''completed'',
                                            rd_duration := cs_duration (stats s),
                                            rd_distance := cs_distance (stats s),
                                            rd_averageSpeed := cs_averageSpeed (stats s),
                                            rd_maxSpeed := cs_maxSpeed (stats s),
                                            rd_route := route s\<rparr>)
                                 (rides s2)\<rparr>)))
         | _ \<Rightarrow> finish s2)"

section \<open>The tracking service (\<open>tracking.js\<close>)\<close>

text \<open>
  \<open>trackingService.trackingData\<close>. \<open>td_minSpeed = None\<close> is \<open>Infinity\<close>; dates are
  milliseconds, \<open>None\<close> for \<open>null\<close>. The fields \<open>timer\<close> and \<open>routeSnapshot\<close> are
  \<open>null\<close> throughout the file and are left out.
\<close>

record trackingData =
  td_isTracking :: bool
  td_startTime :: "int option"
  td_endTime :: "int option"
  td_duration :: real
  td_distance :: real
  td_currentSpeed :: real
  td_maxSpeed :: real
  td_minSpeed :: "real option"
  td_avgSpeed :: real
  td_locationHistory :: "point list"
  td_currentLocation :: "location option"

text \<open>A document of the \<open>tracking_sessions\<close> collection and one of \<open>users\<close>.\<close>

record session_doc =
  sd_userId :: string
  sd_startTime :: int
  sd_endTime :: int
  sd_duration :: real
  sd_distance :: real
  sd_maxSpeed :: real
  sd_minSpeed :: real
  sd_avgSpeed :: real
  sd_locationHistory :: "point list"

record user_doc =
  ud_rides :: int
  ud_totalDistance :: real
  ud_totalTime :: real

text \<open>
  The service with everything it acts on: its \<open>trackingData\<close>, the three keys it keeps
  in the local cache (\<open>current_tracking_id\<close>, \<open>tracking_start_time\<close>,
  \<open>location_history\<close>), the two collections of the document store, and whether the
  background location task is running.
\<close>

record service =
  trackingData :: trackingData
  current_tracking_id :: "string option"
  tracking_start_time :: "int option"
  location_history :: "point list option"
  tracking_sessions :: "(string \<times> session_doc) list"
  users :: "(string \<times> user_doc) list"
  updatesRunning :: bool

datatype 'a result = Success 'a | Failure string

definition td_reset :: "bool \<Rightarrow> int option \<Rightarrow> point list \<Rightarrow> trackingData" where
  "td_reset tracking start history =
     \<lparr>td_isTracking = tracking, td_startTime = start, td_endTime = None, td_duration = 0,
      td_distance = 0, td_currentSpeed = 0, td_maxSpeed = 0, td_minSpeed = None,
      td_avgSpeed = 0, td_locationHistory = history, td_currentLocation = None\<rparr>"

text \<open>The service as the module is loaded.\<close>

definition service_initial :: service where
  "service_initial =
     \<lparr>trackingData = td_reset False None [],
      current_tracking_id = None, tracking_start_time = None, location_history = None,
      tracking_sessions = [], users = [], updatesRunning = False\<rparr>"

text \<open>
  What the outside answers during the service's \<open>startTracking\<close>: the permission status,
  the error of \<open>startLocationUpdatesAsync\<close> if it throws, the clock, the current position
  (or the error) and the fresh document id. \<open>Date.toString()\<close> keeps whole seconds, so
  the cached start time is the clock rounded down to a second.
\<close>

record svc_start_env =
  svc_perm_status :: string
  svc_startUpdates_error :: "string option"
  svc_now :: int
  svc_position :: "string + location"
  svc_new_id :: string

definition svc_startTracking :: "svc_start_env \<Rightarrow> service \<Rightarrow> string result \<times> service" where
  "svc_startTracking env w =
     (if svc_perm_status env \<noteq> ''granted'' then (Failure ''Location permission denied'', w)
      else case svc_startUpdates_error env of
             Some msg \<Rightarrow> (Failure msg, w)
           | None \<Rightarrow>
               let w1 = w\<lparr>updatesRunning := True,
                           trackingData := td_reset True (Some (svc_now env)) []\<rparr>
               in (case svc_position env of
                    Inl msg \<Rightarrow> (Failure msg, w1)
                  | Inr loc \<Rightarrow>
                      let td = trackingData w1;
                          td1 = td\<lparr>td_currentLocation := Some loc,
                                   td_locationHistory := td_locationHistory td @ [locationData_of loc]\<rparr>;
                          trackingId = svc_new_id env
                      in (Success trackingId,
                          w1\<lparr>trackingData := td1,
                             current_tracking_id := Some trackingId,
                             tracking_start_time := Some (svc_now env div 1000 * 1000)\<rparr>)))"

text \<open>
  \<open>updateTracking\<close>. The \<open>calculateDistance\<close> it calls is imported from
  \<open>../utils/formatters\<close>, a module that is not among the sources: it is the parameter
  \<open>calcDist\<close>. A null start time counts as 0 in the subtractions.
\<close>

definition updateTracking ::
  "(jsnum \<Rightarrow> jsnum \<Rightarrow> jsnum \<Rightarrow> jsnum \<Rightarrow> real) \<Rightarrow> location \<Rightarrow> service \<Rightarrow> service" where
  "updateTracking calcDist loc w =
     (if \<not> td_isTracking (trackingData w) then w
      else
        let td = trackingData w;
            locationPoint = locationData_of loc;
            history = td_locationHistory td @ [locationPoint];
            distance =
              (if length history > 1 then
                 let prevLocation = history ! (length history - 2)
                 in td_distance td +
                    calcDist (latitude prevLocation) (longitude prevLocation)
                      (coords_latitude loc) (coords_longitude loc)
               else td_distance td);
            currentSpeed = (if truthy (coords_speed loc) then the (coords_speed loc) * 3.6 else 0);
            maxSpeed = (if currentSpeed > 0 then max (td_maxSpeed td) currentSpeed
                        else td_maxSpeed td);
            minSpeed = (if currentSpeed > 0
                        then (case td_minSpeed td of None \<Rightarrow> Some currentSpeed
                              | Some m \<Rightarrow> Some (min m currentSpeed))
                        else td_minSpeed td);
            start = (case td_startTime td of None \<Rightarrow> 0 | Some t \<Rightarrow> t);
            totalTime = real_of_int (loc_timestamp loc - start) / 1000 / 3600;
            avgSpeed = (if totalTime > 0 then distance / totalTime else 0);
            duration = real_of_int (loc_timestamp loc - start) / 1000;
            td1 = td\<lparr>td_locationHistory := history, td_currentLocation := Some loc,
                     td_distance := distance, td_currentSpeed := currentSpeed,
                     td_maxSpeed := maxSpeed, td_minSpeed := minSpeed,
                     td_avgSpeed := avgSpeed, td_duration := duration\<rparr>
        in if length history mod 10 = 0
           then w\<lparr>trackingData := td1, location_history := Some history\<rparr>
           else w\<lparr>trackingData := td1\<rparr>)"

fun svc_feed ::
  "(jsnum \<Rightarrow> jsnum \<Rightarrow> jsnum \<Rightarrow> jsnum \<Rightarrow> real) \<Rightarrow> location list \<Rightarrow> service \<Rightarrow> service" where
  "svc_feed calcDist [] w = w"
| "svc_feed calcDist (loc # rest) w = svc_feed calcDist rest (updateTracking calcDist loc w)"

text \<open>\<open>doc(id).set(data)\<close> on the \<open>tracking_sessions\<close> collection.\<close>

fun set_doc :: "string \<Rightarrow> 'a \<Rightarrow> (string \<times> 'a) list \<Rightarrow> (string \<times> 'a) list" where
  "set_doc k v [] = [(k, v)]"
| "set_doc k v ((k', v') # rest) =
     (if k' = k then (k, v) # rest else (k', v') # set_doc k v rest)"

text \<open>
  What the outside answers during \<open>stopTracking\<close>: the error of
  \<open>stopLocationUpdatesAsync\<close>, of the \<open>set\<close> on the session document and of the
  transaction on the user document, if they throw, the clock, and the message of the
  error the document store's calls throw on a null argument.
\<close>

record svc_stop_env =
  stopUpdates_error :: "string option"
  stop_now :: int
  set_error :: "string option"
  transaction_error :: "string option"
  null_argument_error :: string

definition svc_stopTracking ::
  "svc_stop_env \<Rightarrow> string \<Rightarrow> service \<Rightarrow> (trackingData \<times> string) result \<times> service" where
  "svc_stopTracking env userId w =
     (if \<not> td_isTracking (trackingData w) then (Failure ''No active tracking session'', w)
      else case stopUpdates_error env of
             Some msg \<Rightarrow> (Failure msg, w)
           | None \<Rightarrow>
               let td = trackingData w;
                   td1 = td\<lparr>td_endTime := Some (stop_now env), td_isTracking := False\<rparr>;
                   td2 = (if td_minSpeed td1 = None then td1\<lparr>td_minSpeed := Some 0\<rparr> else td1);
                   w1 = w\<lparr>updatesRunning := False, trackingData := td2\<rparr>
               in (case (current_tracking_id w1, td_startTime td2) of
                    (Some trackingId, Some start) \<Rightarrow>
                      (case set_error env of
                         Some msg \<Rightarrow> (Failure msg, w1)
                       | None \<Rightarrow>
                           let trackingDataToSave =
                                 \<lparr>sd_userId = userId, sd_startTime = start,
                                  sd_endTime = stop_now env, sd_duration = td_duration td2,
                                  sd_distance = td_distance td2, sd_maxSpeed = td_maxSpeed td2,
                                  sd_minSpeed = the (td_minSpeed td2), sd_avgSpeed = td_avgSpeed td2,
                                  sd_locationHistory = td_locationHistory td2\<rparr>;
                               w2 = w1\<lparr>tracking_sessions :=
                                         set_doc trackingId trackingDataToSave (tracking_sessions w1)\<rparr>
                           in (case transaction_error env of
                                Some msg \<Rightarrow> (Failure msg, w2)
                              | None \<Rightarrow>
                                  (case map_of (users w2) userId of
                                     None \<Rightarrow> (Failure ''User does not exist!'', w2)
                                   | Some userData \<Rightarrow>
                                       (Success (td2, trackingId),
                                        w2\<lparr>users := set_doc userId
                                               (userData\<lparr>ud_rides := ud_rides userData + 1,
                                                  ud_totalDistance :=
                                                    ud_totalDistance userData + td_distance td2,
                                                  ud_totalTime :=
                                                    ud_totalTime userData + td_duration td2\<rparr>)
                                               (users w2),
                                           current_tracking_id := None,
                                           tracking_start_time := None,
                                           location_history := None\<rparr>))))
                  | _ \<Rightarrow> (Failure (null_argument_error env), w1)))"

text \<open>\<open>pauseTracking\<close> and \<open>resumeTracking\<close>; the argument is the error of the location
  call, if it throws.\<close>

definition svc_pauseTracking :: "string option \<Rightarrow> service \<Rightarrow> unit result \<times> service" where
  "svc_pauseTracking stop_error w =
     (if \<not> td_isTracking (trackingData w) then (Failure ''No active tracking session'', w)
      else case stop_error of
             Some msg \<Rightarrow> (Failure msg, w)
           | None \<Rightarrow>
               (Success (),
                w\<lparr>updatesRunning := False,
                  trackingData := (trackingData w)\<lparr>td_isTracking := False\<rparr>\<rparr>))"

definition svc_resumeTracking :: "string option \<Rightarrow> service \<Rightarrow> unit result \<times> service" where
  "svc_resumeTracking start_error w =
     (if td_isTracking (trackingData w) then (Failure ''Tracking is already active'', w)
      else case start_error of
             Some msg \<Rightarrow> (Failure msg, w)
           | None \<Rightarrow>
               (Success (),
                w\<lparr>updatesRunning := True,
                  trackingData := (trackingData w)\<lparr>td_isTracking := True\<rparr>\<rparr>))"

text \<open>
  \<open>checkForInterruptedTracking\<close>: \<open>None\<close> is \<open>{interrupted: false}\<close>; otherwise the
  cached id, start time and location history (\<open>[]\<close> when none was cached). An empty
  string is falsy.
\<close>

record interrupted =
  in_trackingId :: string
  in_startTime :: int
  in_locationHistory :: "point list"

definition checkForInterruptedTracking :: "service \<Rightarrow> interrupted option" where
  "checkForInterruptedTracking w =
     (case (current_tracking_id w, tracking_start_time w) of
        (Some trackingId, Some startTime) \<Rightarrow>
          if trackingId = [] then None
          else Some \<lparr>in_trackingId = trackingId, in_startTime = startTime,
                     in_locationHistory =
                       (case location_history w of None \<Rightarrow> [] | Some h \<Rightarrow> h)\<rparr>
      | _ \<Rightarrow> None)"

text \<open>The two loops of \<open>resumeInterruptedTracking\<close>: the distance over consecutive
  pairs, and the maximum and minimum over the points with a positive speed.\<close>

fun resume_distance ::
  "(jsnum \<Rightarrow> jsnum \<Rightarrow> jsnum \<Rightarrow> jsnum \<Rightarrow> real) \<Rightarrow> point list \<Rightarrow> real \<Rightarrow> real" where
  "resume_distance calcDist (prevPt # currPt # rest) totalDist =
     resume_distance calcDist (currPt # rest)
       (totalDist +
          calcDist (latitude prevPt) (longitude prevPt) (latitude currPt) (longitude currPt))"
| "resume_distance calcDist [p] totalDist = totalDist"
| "resume_distance calcDist [] totalDist = totalDist"

fun resume_speeds :: "point list \<Rightarrow> trackingData \<Rightarrow> trackingData" where
  "resume_speeds [] td = td"
| "resume_speeds (pt # rest) td =
     resume_speeds rest
       (if gt_zero (speed pt) then
          let speedKmh = the (speed pt) * 3.6
          in td\<lparr>td_maxSpeed := max (td_maxSpeed td) speedKmh,
                td_minSpeed := (case td_minSpeed td of None \<Rightarrow> Some speedKmh
                                | Some m \<Rightarrow> Some (min m speedKmh))\<rparr>
        else td)"

text \<open>\<open>resumeInterruptedTracking\<close>; the outside answers the current position and the
  restart of the location updates, each possibly with an error.\<close>

definition resumeInterruptedTracking ::
  "(jsnum \<Rightarrow> jsnum \<Rightarrow> jsnum \<Rightarrow> jsnum \<Rightarrow> real) \<Rightarrow> string + location \<Rightarrow> string option \<Rightarrow>
   interrupted \<Rightarrow> service \<Rightarrow> string result \<times> service" where
  "resumeInterruptedTracking calcDist pos startUpdates_err interruptedData w =
     (let trackingId = in_trackingId interruptedData;
          locationHistory = in_locationHistory interruptedData;
          td = td_reset True (Some (in_startTime interruptedData)) locationHistory;
          td1 = (if length locationHistory > 1
                 then td\<lparr>td_distance := resume_distance calcDist locationHistory 0\<rparr> else td)
      in case pos of
           Inl msg \<Rightarrow> (Failure msg, w\<lparr>trackingData := td1\<rparr>)
         | Inr loc \<Rightarrow>
             let td2 = td1\<lparr>td_currentLocation := Some loc\<rparr>;
                 td3 = resume_speeds locationHistory td2
             in (case startUpdates_err of
                  Some msg \<Rightarrow> (Failure msg, w\<lparr>trackingData := td3\<rparr>)
                | None \<Rightarrow> (Success trackingId, w\<lparr>trackingData := td3, updatesRunning := True\<rparr>)))"

section \<open>Routes without GPS jumps\<close>

text \<open>
  A route all of whose consecutive segments are shorter than 0.1 km, by the haversine
  distance in kilometres. It is the condition under which the paths are compared below.
\<close>

fun short_segments :: "point list \<Rightarrow> bool" where
  "short_segments (p # c # rest) =
     (ctx_calculateDistance (latitude p) (longitude p) (latitude c) (longitude c) < 0.1 \<and>
      short_segments (c # rest))"
| "short_segments [p] = True"
| "short_segments [] = True"

section \<open>The average speed of a route, in the specification's words\<close>



section \<open>Sample data\<close>

text \<open>
  The concrete samples, answers of the outside and started sessions that the examples
  below run the operations on. They are abbreviations: each name stands for the term on
  its right.
\<close>

abbreviation sample_start :: location where
  "sample_start \<equiv>
     \<lparr>coords_latitude = Some 90, coords_longitude = Some 1, coords_speed = None, coords_altitude = Some 100, loc_timestamp = 1000\<rparr>"

abbreviation sample_same_place :: location where
  "sample_same_place \<equiv>
     \<lparr>coords_latitude = Some 90, coords_longitude = Some 1, coords_speed = Some 10, coords_altitude = Some 100, loc_timestamp = 6000\<rparr>"

abbreviation sample_jump :: location where
  "sample_jump \<equiv>
     \<lparr>coords_latitude = Some (- 90), coords_longitude = Some 1, coords_speed = Some 10, coords_altitude = Some 150, loc_timestamp = 6000\<rparr>"

abbreviation sample_after_restart :: location where
  "sample_after_restart \<equiv>
     \<lparr>coords_latitude = Some (- 90), coords_longitude = Some 1, coords_speed = Some 10, coords_altitude = Some 150, loc_timestamp = 12000\<rparr>"

abbreviation sample_elsewhere :: location where
  "sample_elsewhere \<equiv>
     \<lparr>coords_latitude = Some 80, coords_longitude = Some 2, coords_speed = None, coords_altitude = Some 50, loc_timestamp = 9000\<rparr>"

abbreviation point_start :: point where
  "point_start \<equiv>
     \<lparr>latitude = Some 90, longitude = Some 1, timestamp = 1000, speed = Some 0, altitude = Some 100\<rparr>"

abbreviation point_same_place :: point where
  "point_same_place \<equiv>
     \<lparr>latitude = Some 90, longitude = Some 1, timestamp = 6000, speed = Some 10, altitude = Some 100\<rparr>"

abbreviation point_jump :: point where
  "point_jump \<equiv>
     \<lparr>latitude = Some (- 90), longitude = Some 1, timestamp = 6000, speed = Some 10, altitude = Some 150\<rparr>"

abbreviation point_elsewhere :: point where
  "point_elsewhere \<equiv>
     \<lparr>latitude = Some 80, longitude = Some 2, timestamp = 9000, speed = Some 0, altitude = Some 50\<rparr>"

abbreviation ctx_env_anonymous :: ctx_start_env where
  "ctx_env_anonymous \<equiv>
     \<lparr>perm_status = ''granted'', position = Inr sample_start, now_reset = 1000, now_ref = 1000, addDoc_result = Inr 0, watch_result = Inr 7\<rparr>"

abbreviation ctx_env_first :: ctx_start_env where
  "ctx_env_first \<equiv>
     \<lparr>perm_status = ''granted'', position = Inr sample_start, now_reset = 1000, now_ref = 1000, addDoc_result = Inr 11, watch_result = Inr 7\<rparr>"

abbreviation ctx_env_second :: ctx_start_env where
  "ctx_env_second \<equiv>
     \<lparr>perm_status = ''granted'', position = Inr sample_elsewhere, now_reset = 9000, now_ref = 9000, addDoc_result = Inr 12, watch_result = Inr 8\<rparr>"

abbreviation svc_env_first :: svc_start_env where
  "svc_env_first \<equiv>
     \<lparr>svc_perm_status = ''granted'', svc_startUpdates_error = None, svc_now = 1000, svc_position = Inr sample_start, svc_new_id = ''ride1''\<rparr>"

abbreviation stop_env_failing :: svc_stop_env where
  "stop_env_failing \<equiv>
     \<lparr>stopUpdates_error = None, stop_now = 9000, set_error = Some ''unavailable'', transaction_error = None, null_argument_error = ''invalid argument''\<rparr>"

abbreviation stop_env_working :: svc_stop_env where
  "stop_env_working \<equiv>
     \<lparr>stopUpdates_error = None, stop_now = 9000, set_error = None, transaction_error = None, null_argument_error = ''invalid argument''\<rparr>"

abbreviation ctx_started :: ctx_state where
  "ctx_started \<equiv>
     ctx_startTracking None ctx_env_anonymous ctx_initial"

abbreviation svc_started :: service where
  "svc_started \<equiv>
     snd (svc_startTracking svc_env_first service_initial)"

abbreviation cached_service :: service where
  "cached_service \<equiv>
     service_initial \<lparr>current_tracking_id := Some ''ride1'', tracking_start_time := Some 1000, location_history := Some [point_start, point_jump]\<rparr>"

abbreviation cached_session :: interrupted where
  "cached_session \<equiv>
     \<lparr>in_trackingId = ''ride1'', in_startTime = 1000, in_locationHistory = [point_start, point_jump]\<rparr>"

abbreviation svc_resumed :: "string result \<times> service" where
  "svc_resumed \<equiv>
     resumeInterruptedTracking ctx_calculateDistance (Inr sample_after_restart) None cached_session cached_service"

abbreviation ctx_active :: ctx_state where
  "ctx_active \<equiv>
     handleLocationUpdate 6000 sample_same_place (ctx_startTracking (Some ''u1'') ctx_env_first ctx_initial)"

abbreviation ctx_paused :: ctx_state where
  "ctx_paused \<equiv>
     ctx_pauseTracking (Some ''u1'') None ctx_active"

abbreviation ctx_restarted :: ctx_state where
  "ctx_restarted \<equiv>
     ctx_startTracking (Some ''u1'') ctx_env_second ctx_paused"

abbreviation svc_active :: service where
  "svc_active \<equiv>
     (updateTracking ctx_calculateDistance sample_same_place svc_started) \<lparr>users := [(''u1'', \<lparr>ud_rides = 3, ud_totalDistance = 40, ud_totalTime = 7200\<rparr>)]\<rparr>"

abbreviation svc_stop_failed :: service where
  "svc_stop_failed \<equiv>
     snd (svc_stopTracking stop_env_failing ''u1'' svc_active)"

abbreviation ctx_fed :: ctx_state where
  "ctx_fed \<equiv>
     ctx_feed [(6000, sample_same_place)] ctx_started"

abbreviation svc_fed :: service where
  "svc_fed \<equiv>
     svc_feed ctx_calculateDistance [sample_same_place] svc_started"

abbreviation svc_fed_jump :: service where
  "svc_fed_jump \<equiv>
     svc_feed ctx_calculateDistance [sample_jump] svc_started"

abbreviation svc_paused :: service where
  "svc_paused \<equiv>
     snd (svc_pauseTracking None svc_started)"

abbreviation polar_first :: point where
  "polar_first \<equiv>
     \<lparr>latitude = Some 90, longitude = Some 1, timestamp = 0, speed = Some 0, altitude = Some 100\<rparr>"

abbreviation polar_second :: point where
  "polar_second \<equiv>
     \<lparr>latitude = Some 90, longitude = Some 1, timestamp = 5000, speed = Some 0, altitude = Some 100\<rparr>"

abbreviation polar_jump :: point where
  "polar_jump \<equiv>
     \<lparr>latitude = Some (- 90), longitude = Some 1, timestamp = 10000, speed = Some 10, altitude = Some 150\<rparr>"


section \<open>Facts about the distance calculator\<close>

lemma deg2rad_diff_swap: "deg2rad (x - y) = - deg2rad (y - x)"
proof -
  have "x - y = - (y - x)" by simp
  then show ?thesis
    unfolding deg2rad_def by (metis mult_minus_left)
qed

lemma haversine_a_sym:
  "sin (deg2rad (x2 - x1) / 2) * sin (deg2rad (x2 - x1) / 2) +
     cos (deg2rad x1) * cos (deg2rad x2) *
     sin (deg2rad (y2 - y1) / 2) * sin (deg2rad (y2 - y1) / 2) =
   sin (deg2rad (x1 - x2) / 2) * sin (deg2rad (x1 - x2) / 2) +
     cos (deg2rad x2) * cos (deg2rad x1) *
     sin (deg2rad (y1 - y2) / 2) * sin (deg2rad (y1 - y2) / 2)"
proof -
  have sx: "sin (deg2rad (x2 - x1) / 2) = - sin (deg2rad (x1 - x2) / 2)"
    using deg2rad_diff_swap [of x2 x1] by simp
  have sy: "sin (deg2rad (y2 - y1) / 2) = - sin (deg2rad (y1 - y2) / 2)"
    using deg2rad_diff_swap [of y2 y1] by simp
  show ?thesis
    unfolding sx sy by (simp add: mult.commute)
qed

lemma ctx_calculateDistance_sym:
  "ctx_calculateDistance lat1 lon1 lat2 lon2 = ctx_calculateDistance lat2 lon2 lat1 lon1"
proof (cases "truthy lat1 \<and> truthy lon1 \<and> truthy lat2 \<and> truthy lon2")
  case True
  then show ?thesis
    unfolding ctx_calculateDistance_def Let_def
    using haversine_a_sym [of "the lat2" "the lat1" "the lon2" "the lon1"] by simp
next
  case False
  then show ?thesis
    unfolding ctx_calculateDistance_def by auto
qed

lemma calculateDistance_sym:
  "calculateDistance u lat1 lon1 lat2 lon2 = calculateDistance u lat2 lon2 lat1 lon1"
proof (cases "truthy lat1 \<and> truthy lon1 \<and> truthy lat2 \<and> truthy lon2")
  case True
  then show ?thesis
    unfolding calculateDistance_def Let_def
    using haversine_a_sym [of "the lat2" "the lat1" "the lon2" "the lon1"] by simp
next
  case False
  then show ?thesis
    unfolding calculateDistance_def by auto
qed

lemma js_atan2_0_1: "js_atan2 0 1 = 0"
  by (simp add: js_atan2_def)

lemma ctx_calculateDistance_same: "ctx_calculateDistance lat lon lat lon = 0"
  by (simp add: ctx_calculateDistance_def Let_def deg2rad_def js_atan2_0_1)

lemma calculateDistance_same: "calculateDistance u lat lon lat lon = 0"
  by (simp add: calculateDistance_def Let_def deg2rad_def js_atan2_0_1)

lemma ctx_calculateDistance_falsy:
  "\<not> truthy lat1 \<or> \<not> truthy lon1 \<or> \<not> truthy lat2 \<or> \<not> truthy lon2 \<Longrightarrow>
   ctx_calculateDistance lat1 lon1 lat2 lon2 = 0"
  unfolding ctx_calculateDistance_def by auto

lemma calculateDistance_falsy:
  "\<not> truthy lat1 \<or> \<not> truthy lon1 \<or> \<not> truthy lat2 \<or> \<not> truthy lon2 \<Longrightarrow>
   calculateDistance u lat1 lon1 lat2 lon2 = 0"
  unfolding calculateDistance_def by auto

section \<open>Auxiliary facts\<close>

lemma toFixed_near: "\<bar>toFixed d x - x\<bar> \<le> 1 / (2 * 10 ^ d)"
proof -
  have p: "(0::real) < 10 ^ d" by simp
  have fl: "\<bar>real_of_int \<lfloor>y + 1 / 2\<rfloor> - y\<bar> \<le> 1 / 2" for y :: real
    by linarith
  have sc: "\<bar>real_of_int \<lfloor>y * 10 ^ d + 1 / 2\<rfloor> / 10 ^ d - y\<bar> \<le> 1 / (2 * 10 ^ d)" for y :: real
  proof -
    have "\<bar>real_of_int \<lfloor>y * 10 ^ d + 1 / 2\<rfloor> / 10 ^ d - y\<bar>
        = \<bar>real_of_int \<lfloor>y * 10 ^ d + 1 / 2\<rfloor> - y * 10 ^ d\<bar> / 10 ^ d"
      using p by (simp add: field_simps)
    also have "\<dots> \<le> (1 / 2) / 10 ^ d"
      using divide_right_mono [OF fl [of "y * 10 ^ d"], of "10 ^ d"] by simp
    finally show ?thesis by simp
  qed
  show ?thesis
  proof (cases "x < 0")
    case True
    then have "toFixed d x - x = - (real_of_int \<lfloor>(- x) * 10 ^ d + 1 / 2\<rfloor> / 10 ^ d - (- x))"
      by (simp add: toFixed_def)
    then show ?thesis using sc [of "- x"] by simp
  next
    case False
    then show ?thesis using sc [of x] by (simp add: toFixed_def)
  qed
qed

lemma loop_body_jump:
  "0.1 < calculateDistance pu (latitude p) (longitude p) (latitude c) (longitude c) \<Longrightarrow>
   loop_body pu p c v = v"
  by (simp add: loop_body_def Let_def)

lemma route_loop_snoc:
  "route_loop pu (r @ [p, c]) v = loop_body pu p c (route_loop pu (r @ [p]) v)"
proof (induction r arbitrary: v)
  case Nil
  show ?case by simp
next
  case (Cons x xs)
  show ?case
  proof (cases xs)
    case Nil
    then show ?thesis by simp
  next
    case (Cons y ys)
    then show ?thesis using Cons.IH by simp
  qed
qed

lemma deg2rad_values:
  "deg2rad (- 180) = - pi" "deg2rad 0 = 0" "deg2rad 90 = pi / 2" "deg2rad (- 90) = - (pi / 2)"
  by (simp_all add: deg2rad_def)

lemma js_atan2_1_0: "js_atan2 1 0 = pi / 2"
  by (simp add: js_atan2_def)

lemma ctx_pole_to_pole:
  "ctx_calculateDistance (Some 90) (Some 1) (Some (- 90)) (Some 1) = 6371 * pi"
  by (simp add: ctx_calculateDistance_def Let_def truthy_def deg2rad_values js_atan2_1_0)

lemma hook_pole_to_pole:
  "calculateDistance ''km'' (Some 90) (Some 1) (Some (- 90)) (Some 1) = 6371 * pi"
  by (simp add: calculateDistance_def Let_def truthy_def deg2rad_values js_atan2_1_0)

lemma pole_jump: "(1 / 10 :: real) < 6371 * pi"
  using pi_gt_zero pi_ge_two by simp

lemma elevationLoop_snoc:
  "elevationLoop (r @ [p, c]) g =
     elevationLoop (r @ [p]) g + max 0 (or_zero (altitude c) - or_zero (altitude p))"
proof (induction r arbitrary: g)
  case Nil
  show ?case by (simp add: Let_def max_def)
next
  case (Cons x xs)
  show ?case
  proof (cases xs)
    case Nil
    then show ?thesis by (simp add: Let_def max_def)
  next
    case (Cons y ys)
    then show ?thesis using Cons.IH by simp
  qed
qed

lemma calculateElevationGain_snoc:
  "calculateElevationGain (r @ [p, c]) =
     calculateElevationGain (r @ [p]) + max 0 (or_zero (altitude c) - or_zero (altitude p))"
proof (cases r)
  case Nil
  then show ?thesis by (simp add: calculateElevationGain_def Let_def max_def)
next
  case (Cons x xs)
  then show ?thesis
    using elevationLoop_snoc [of r p c 0] by (simp add: calculateElevationGain_def)
qed

lemma svc_start_example:
  "svc_startTracking svc_env_first service_initial =
   (Success ''ride1'',
    \<lparr>trackingData =
       \<lparr>td_isTracking = True, td_startTime = Some 1000, td_endTime = None, td_duration = 0,
        td_distance = 0, td_currentSpeed = 0, td_maxSpeed = 0, td_minSpeed = None,
        td_avgSpeed = 0,
        td_locationHistory = [point_start],
        td_currentLocation = Some sample_start\<rparr>,
     current_tracking_id = Some ''ride1'', tracking_start_time = Some 1000,
     location_history = None, tracking_sessions = [], users = [], updatesRunning = True\<rparr>)"
  by (simp add: svc_startTracking_def service_initial_def td_reset_def Let_def
      locationData_of_def or_zero_def)

lemma loop_body_totalDistance:
  "totalDistance (loop_body pu p c v) =
     (if 0.1 < calculateDistance pu (latitude p) (longitude p) (latitude c) (longitude c)
      then totalDistance v
      else totalDistance v +
           calculateDistance pu (latitude p) (longitude p) (latitude c) (longitude c))"
  by (simp add: loop_body_def Let_def split: option.split)

lemma handleLocationUpdate_route:
  "route (handleLocationUpdate now loc s) = route s @ [locationData_of loc]"
  by (simp add: handleLocationUpdate_def updateStats_def Let_def)

lemma handleLocationUpdate_distance:
  "lastLocationRef s = Some (lat, lon) \<Longrightarrow>
   cs_distance (stats (handleLocationUpdate now loc s)) =
     (if ctx_calculateDistance lat lon (coords_latitude loc) (coords_longitude loc) < 0.1
      then cs_distance (stats s) +
           ctx_calculateDistance lat lon (coords_latitude loc) (coords_longitude loc)
      else cs_distance (stats s))"
  by (simp add: handleLocationUpdate_def updateStats_def Let_def locationData_of_def)

lemma updateTracking_distance:
  "td_isTracking (trackingData w) \<Longrightarrow> td_locationHistory (trackingData w) = pre @ [q] \<Longrightarrow>
   td_distance (trackingData (updateTracking calcDist loc w)) =
     td_distance (trackingData w) +
     calcDist (latitude q) (longitude q) (coords_latitude loc) (coords_longitude loc)"
  by (simp add: updateTracking_def Let_def nth_append)

lemma updateTracking_history:
  "td_isTracking (trackingData w) \<Longrightarrow>
   td_locationHistory (trackingData (updateTracking calcDist loc w)) =
     td_locationHistory (trackingData w) @ [locationData_of loc]"
  by (simp add: updateTracking_def Let_def)

lemma ctx_start_example:
  "ctx_started =
   \<lparr>isTracking = True,
    currentLocation = Some point_start,
    route = [point_start],
    stats = \<lparr>cs_distance = 0, cs_currentSpeed = 0, cs_averageSpeed = 0, cs_maxSpeed = 0,
             cs_duration = 0, cs_startTime = Some 1000, cs_endTime = None\<rparr>,
    locationSubscription = Some 7, activityDocRef = None, startTimeRef = Some 1000,
    lastLocationRef = Some (Some 90, Some 1), rides = [], watchers = [7], alerts = []\<rparr>"
  by (simp add: ctx_startTracking_def ctx_start_watch_def ctx_initial_def Let_def
      locationData_of_def or_zero_def)

lemma calculateDistance_km:
  "pu \<noteq> ''mi'' \<Longrightarrow> calculateDistance pu a b c d = ctx_calculateDistance a b c d"
  by (simp add: calculateDistance_def ctx_calculateDistance_def Let_def)

lemma formatSpeed_km: "pu \<noteq> ''mi'' \<Longrightarrow> formatSpeed pu (Some x) = x * 3.6"
  by (simp add: formatSpeed_def truthy_def Let_def)

lemma truthy_Some: "truthy (Some x) = (x \<noteq> 0)"
  by (simp add: truthy_def)

lemma loop_body_short:
  assumes "pu \<noteq> ''mi''"
    and "ctx_calculateDistance (latitude p) (longitude p) (latitude c) (longitude c) < 0.1"
    and "speed c = Some x"
  shows "totalDistance (loop_body pu p c v) =
           totalDistance v +
           ctx_calculateDistance (latitude p) (longitude p) (latitude c) (longitude c)"
    and "maxSpeed (loop_body pu p c v) =
           (if 0 < x * 3.6 then max (maxSpeed v) (x * 3.6) else maxSpeed v)"
    and "minSpeed (loop_body pu p c v) =
           (if 0 < x * 3.6
            then (case minSpeed v of None \<Rightarrow> Some (x * 3.6) | Some m \<Rightarrow> Some (min m (x * 3.6)))
            else minSpeed v)"
  using assms
  by (auto simp add: loop_body_def Let_def calculateDistance_km formatSpeed_km truthy_Some
      split: option.split)

lemma handleLocationUpdate_fields:
  "lastLocationRef (handleLocationUpdate now loc s) =
     Some (coords_latitude loc, coords_longitude loc)"
  "cs_maxSpeed (stats (handleLocationUpdate now loc s)) =
     max (cs_maxSpeed (stats s)) (or_zero (coords_speed loc) * 3.6)"
  by (simp_all add: handleLocationUpdate_def updateStats_def Let_def locationData_of_def
      truthy_def)

lemma locationData_of_simps:
  "latitude (locationData_of loc) = coords_latitude loc"
  "longitude (locationData_of loc) = coords_longitude loc"
  "speed (locationData_of loc) = Some (or_zero (coords_speed loc))"
  by (simp_all add: locationData_of_def)

lemma ctx_feed_route:
  "route (ctx_feed evs s) = route s @ map (\<lambda>e. locationData_of (snd e)) evs"
  by (induction evs s rule: ctx_feed.induct) (simp_all add: handleLocationUpdate_route)

lemma ctx_feed_agrees:
  assumes "pu \<noteq> ''mi''"
  shows "lastLocationRef s = Some (latitude q, longitude q) \<Longrightarrow>
         cs_distance (stats s) = totalDistance v \<Longrightarrow>
         cs_maxSpeed (stats s) = maxSpeed v \<Longrightarrow> 0 \<le> maxSpeed v \<Longrightarrow>
         short_segments (q # map (\<lambda>e. locationData_of (snd e)) evs) \<Longrightarrow>
         totalDistance (route_loop pu (q # map (\<lambda>e. locationData_of (snd e)) evs) v) =
           cs_distance (stats (ctx_feed evs s)) \<and>
         maxSpeed (route_loop pu (q # map (\<lambda>e. locationData_of (snd e)) evs) v) =
           cs_maxSpeed (stats (ctx_feed evs s))"
proof (induction evs arbitrary: s q v)
  case Nil
  then show ?case by simp
next
  case (Cons e evs)
  obtain now loc where e: "e = (now, loc)" by (cases e)
  let ?c = "locationData_of loc"
  let ?d = "ctx_calculateDistance (latitude q) (longitude q) (coords_latitude loc) (coords_longitude loc)"
  let ?s = "handleLocationUpdate now loc s"
  let ?v = "loop_body pu q ?c v"
  from Cons.prems(5) e have short: "?d < 0.1"
    and rest: "short_segments (?c # map (\<lambda>e. locationData_of (snd e)) evs)"
    by (simp_all add: locationData_of_simps)
  have body:
    "totalDistance ?v = totalDistance v + ?d"
    "maxSpeed ?v = (if 0 < or_zero (coords_speed loc) * 3.6
                    then max (maxSpeed v) (or_zero (coords_speed loc) * 3.6) else maxSpeed v)"
    using loop_body_short(1,2) [OF assms, of q ?c "or_zero (coords_speed loc)" v] short
    by (simp_all add: locationData_of_simps)
  have 1: "lastLocationRef ?s = Some (latitude ?c, longitude ?c)"
    by (simp add: handleLocationUpdate_fields locationData_of_simps)
  have 2: "cs_distance (stats ?s) = totalDistance ?v"
    using handleLocationUpdate_distance [OF Cons.prems(1), of now loc] short Cons.prems(2) body(1)
    by simp
  have 3: "cs_maxSpeed (stats ?s) = maxSpeed ?v"
    using Cons.prems(3,4) body(2) by (simp add: handleLocationUpdate_fields max_def)
  have 4: "0 \<le> maxSpeed ?v"
    using Cons.prems(4) body(2) by (simp add: max_def)
  show ?case
    using Cons.IH [OF 1 2 3 4 rest] e by simp
qed

lemma updateTracking_fields:
  assumes "td_isTracking (trackingData w)"
  shows "td_isTracking (trackingData (updateTracking calcDist loc w))"
    and "td_maxSpeed (trackingData (updateTracking calcDist loc w)) =
           (if 0 < or_zero (coords_speed loc) * 3.6
            then max (td_maxSpeed (trackingData w)) (or_zero (coords_speed loc) * 3.6)
            else td_maxSpeed (trackingData w))"
    and "td_minSpeed (trackingData (updateTracking calcDist loc w)) =
           (if 0 < or_zero (coords_speed loc) * 3.6
            then (case td_minSpeed (trackingData w) of
                    None \<Rightarrow> Some (or_zero (coords_speed loc) * 3.6)
                  | Some m \<Rightarrow> Some (min m (or_zero (coords_speed loc) * 3.6)))
            else td_minSpeed (trackingData w))"
  using assms
  by (auto simp add: updateTracking_def Let_def truthy_def or_zero_def split: option.split)

lemma svc_feed_agrees:
  assumes "pu \<noteq> ''mi''"
  shows "td_isTracking (trackingData w) \<Longrightarrow>
         td_locationHistory (trackingData w) = pre @ [q] \<Longrightarrow>
         td_distance (trackingData w) = totalDistance v \<Longrightarrow>
         td_maxSpeed (trackingData w) = maxSpeed v \<Longrightarrow>
         td_minSpeed (trackingData w) = minSpeed v \<Longrightarrow>
         short_segments (q # map locationData_of locs) \<Longrightarrow>
         td_locationHistory (trackingData (svc_feed ctx_calculateDistance locs w)) =
           pre @ q # map locationData_of locs \<and>
         totalDistance (route_loop pu (q # map locationData_of locs) v) =
           td_distance (trackingData (svc_feed ctx_calculateDistance locs w)) \<and>
         maxSpeed (route_loop pu (q # map locationData_of locs) v) =
           td_maxSpeed (trackingData (svc_feed ctx_calculateDistance locs w)) \<and>
         minSpeed (route_loop pu (q # map locationData_of locs) v) =
           td_minSpeed (trackingData (svc_feed ctx_calculateDistance locs w))"
proof (induction locs arbitrary: w pre q v)
  case Nil
  then show ?case by simp
next
  case (Cons loc locs)
  let ?c = "locationData_of loc"
  let ?d = "ctx_calculateDistance (latitude q) (longitude q) (coords_latitude loc) (coords_longitude loc)"
  let ?w = "updateTracking ctx_calculateDistance loc w"
  let ?v = "loop_body pu q ?c v"
  from Cons.prems(6) have short: "?d < 0.1"
    and rest: "short_segments (?c # map locationData_of locs)"
    by (simp_all add: locationData_of_simps)
  have body:
    "totalDistance ?v = totalDistance v + ?d"
    "maxSpeed ?v = (if 0 < or_zero (coords_speed loc) * 3.6
                    then max (maxSpeed v) (or_zero (coords_speed loc) * 3.6) else maxSpeed v)"
    "minSpeed ?v = (if 0 < or_zero (coords_speed loc) * 3.6
                    then (case minSpeed v of None \<Rightarrow> Some (or_zero (coords_speed loc) * 3.6)
                          | Some m \<Rightarrow> Some (min m (or_zero (coords_speed loc) * 3.6)))
                    else minSpeed v)"
    using loop_body_short [OF assms, of q ?c "or_zero (coords_speed loc)" v] short
    by (simp_all add: locationData_of_simps)
  have 1: "td_isTracking (trackingData ?w)"
    using Cons.prems(1) by (rule updateTracking_fields(1))
  have 2: "td_locationHistory (trackingData ?w) = (pre @ [q]) @ [?c]"
    using updateTracking_history [OF Cons.prems(1), of ctx_calculateDistance loc] Cons.prems(2)
    by simp
  have 3: "td_distance (trackingData ?w) = totalDistance ?v"
    using updateTracking_distance [OF Cons.prems(1,2), of ctx_calculateDistance loc]
      Cons.prems(3) body(1) by simp
  have 4: "td_maxSpeed (trackingData ?w) = maxSpeed ?v"
    using updateTracking_fields(2) [OF Cons.prems(1), of ctx_calculateDistance loc]
      Cons.prems(4) body(2) by simp
  have 5: "td_minSpeed (trackingData ?w) = minSpeed ?v"
    using updateTracking_fields(3) [OF Cons.prems(1), of ctx_calculateDistance loc]
      Cons.prems(5) body(3) by simp
  show ?case
    using Cons.IH [OF 1 2 3 4 5 rest] by simp
qed

lemma toFixed_0: "toFixed d 0 = 0"
  by (simp add: toFixed_def)

lemma processRouteData_fields:
  "hs_distance (processRouteData pu wt dur (q # pts)) =
     toFixed 2 (totalDistance (route_loop pu (q # pts) loop_init))"
  "hs_maxSpeed (processRouteData pu wt dur (q # pts)) =
     toFixed 1 (maxSpeed (route_loop pu (q # pts) loop_init))"
  "hs_minSpeed (processRouteData pu wt dur (q # pts)) =
     (case minSpeed (route_loop pu (q # pts) loop_init) of None \<Rightarrow> 0 | Some m \<Rightarrow> toFixed 1 m)"
  by (cases pts; simp add: processRouteData_def Let_def loop_init_def toFixed_0)+

lemma ctx_feed_example:
  "handleLocationUpdate 6000 sample_same_place ctx_started =
   \<lparr>isTracking = True,
    currentLocation = Some point_same_place,
    route = [point_start, point_same_place],
    stats = \<lparr>cs_distance = 0, cs_currentSpeed = 36, cs_averageSpeed = 0, cs_maxSpeed = 36,
             cs_duration = 5, cs_startTime = Some 1000, cs_endTime = None\<rparr>,
    locationSubscription = Some 7, activityDocRef = None, startTimeRef = Some 1000,
    lastLocationRef = Some (Some 90, Some 1), rides = [], watchers = [7], alerts = []\<rparr>"
  by (simp add: ctx_start_example handleLocationUpdate_def updateStats_def Let_def
      locationData_of_def or_zero_def truthy_def ctx_calculateDistance_same)

lemma svc_feed_example:
  "trackingData (updateTracking ctx_calculateDistance sample_same_place svc_started) =
   \<lparr>td_isTracking = True, td_startTime = Some 1000, td_endTime = None, td_duration = 5,
    td_distance = 0, td_currentSpeed = 36, td_maxSpeed = 36, td_minSpeed = Some 36,
    td_avgSpeed = 0,
    td_locationHistory = [point_start, point_same_place],
    td_currentLocation = Some sample_same_place\<rparr>"
  by (simp add: svc_start_example updateTracking_def Let_def
      locationData_of_def or_zero_def truthy_def ctx_calculateDistance_same)

lemma svc_feed_jump_example:
  "trackingData (updateTracking ctx_calculateDistance sample_jump svc_started) =
   \<lparr>td_isTracking = True, td_startTime = Some 1000, td_endTime = None, td_duration = 5,
    td_distance = 6371 * pi, td_currentSpeed = 36, td_maxSpeed = 36, td_minSpeed = Some 36,
    td_avgSpeed = 6371 * pi / (5 / 3600),
    td_locationHistory = [point_start, point_jump],
    td_currentLocation = Some sample_jump\<rparr>"
  by (simp add: svc_start_example updateTracking_def Let_def
      locationData_of_def or_zero_def truthy_def ctx_pole_to_pole)

lemma batch_example:
  "processRouteData ''km'' None 5 [point_start, point_same_place] =
   \<lparr>hs_distance = 0, hs_averageSpeed = 36, hs_maxSpeed = 36, hs_minSpeed = 36,
    hs_elevationGain = 0, hs_caloriesBurned = 2,
    hs_speedData = [(6000, 36)], hs_altitudeData = [(6000, 100)],
    hs_pacesData = [(6000, 1 + 40 / 60)]\<rparr>"
  by (simp add: processRouteData_def Let_def loop_body_def loop_init_def
      calculateDistance_same truthy_def formatSpeed_def calculatePace_def
      toFixed_def calculateElevationGain_def or_zero_def calculateCalories_def js_round_def)

lemma batch_jump_example:
  "processRouteData ''km'' None 5 [point_start, point_jump] =
   \<lparr>hs_distance = 0, hs_averageSpeed = 0, hs_maxSpeed = 0, hs_minSpeed = 0,
    hs_elevationGain = 50, hs_caloriesBurned = 1,
    hs_speedData = [], hs_altitudeData = [], hs_pacesData = []\<rparr>"
  using pole_jump
  by (simp add: processRouteData_def Let_def loop_body_def loop_init_def
      hook_pole_to_pole toFixed_def calculateElevationGain_def or_zero_def truthy_def
      calculateCalories_def js_round_def)

lemma ctx_active_example:
  "ctx_active =
   \<lparr>isTracking = True,
    currentLocation = Some point_same_place,
    route = [point_start, point_same_place],
    stats = \<lparr>cs_distance = 0, cs_currentSpeed = 36, cs_averageSpeed = 0, cs_maxSpeed = 36,
             cs_duration = 5, cs_startTime = Some 1000, cs_endTime = None\<rparr>,
    locationSubscription = Some 7, activityDocRef = Some 11, startTimeRef = Some 1000,
    lastLocationRef = Some (Some 90, Some 1),
    rides = [(11, \<lparr>rd_status = ''active'', rd_duration = 0, rd_distance = 0,
                 rd_averageSpeed = 0, rd_maxSpeed = 0, rd_route = []\<rparr>)],
    watchers = [7], alerts = []\<rparr>"
  by (simp add: ctx_startTracking_def ctx_start_watch_def ctx_initial_def
      handleLocationUpdate_def updateStats_def Let_def
      locationData_of_def or_zero_def truthy_def ctx_calculateDistance_same)

lemma ctx_paused_example:
  "ctx_paused =
   \<lparr>isTracking = False,
    currentLocation = Some point_same_place,
    route = [point_start, point_same_place],
    stats = \<lparr>cs_distance = 0, cs_currentSpeed = 36, cs_averageSpeed = 0, cs_maxSpeed = 36,
             cs_duration = 5, cs_startTime = Some 1000, cs_endTime = None\<rparr>,
    locationSubscription = None, activityDocRef = Some 11, startTimeRef = Some 1000,
    lastLocationRef = Some (Some 90, Some 1),
    rides = [(11, \<lparr>rd_status = ''paused'', rd_duration = 5, rd_distance = 0,
                 rd_averageSpeed = 0, rd_maxSpeed = 36, rd_route = []\<rparr>)],
    watchers = [], alerts = []\<rparr>"
  by (simp add: ctx_active_example ctx_pauseTracking_def ctx_unsubscribe_def Let_def)

lemma ctx_restart_example:
  "ctx_startTracking (Some ''u1'') ctx_env_second
     \<lparr>isTracking = False,
    currentLocation = Some point_same_place,
    route = [point_start, point_same_place],
    stats = \<lparr>cs_distance = 0, cs_currentSpeed = 36, cs_averageSpeed = 0, cs_maxSpeed = 36,
             cs_duration = 5, cs_startTime = Some 1000, cs_endTime = None\<rparr>,
    locationSubscription = None, activityDocRef = Some 11, startTimeRef = Some 1000,
    lastLocationRef = Some (Some 90, Some 1),
    rides = [(11, \<lparr>rd_status = ''paused'', rd_duration = 5, rd_distance = 0,
                 rd_averageSpeed = 0, rd_maxSpeed = 36, rd_route = []\<rparr>)],
    watchers = [], alerts = []\<rparr> =
   \<lparr>isTracking = True,
    currentLocation = Some point_elsewhere,
    route = [point_elsewhere],
    stats = \<lparr>cs_distance = 0, cs_currentSpeed = 0, cs_averageSpeed = 0, cs_maxSpeed = 0,
             cs_duration = 0, cs_startTime = Some 9000, cs_endTime = None\<rparr>,
    locationSubscription = Some 8, activityDocRef = Some 12, startTimeRef = Some 9000,
    lastLocationRef = Some (Some 80, Some 2),
    rides = [(11, \<lparr>rd_status = ''paused'', rd_duration = 5, rd_distance = 0,
                 rd_averageSpeed = 0, rd_maxSpeed = 36, rd_route = []\<rparr>),
             (12, \<lparr>rd_status = ''active'', rd_duration = 0, rd_distance = 0,
                 rd_averageSpeed = 0, rd_maxSpeed = 0, rd_route = []\<rparr>)],
    watchers = [8], alerts = []\<rparr>"
  by (simp add: ctx_startTracking_def ctx_start_watch_def Let_def
      locationData_of_def or_zero_def)

lemma svc_active_example:
  "svc_active =
   \<lparr>trackingData =
      \<lparr>td_isTracking = True, td_startTime = Some 1000, td_endTime = None, td_duration = 5,
       td_distance = 0, td_currentSpeed = 36, td_maxSpeed = 36, td_minSpeed = Some 36,
       td_avgSpeed = 0,
       td_locationHistory = [point_start, point_same_place],
       td_currentLocation = Some sample_same_place\<rparr>,
    current_tracking_id = Some ''ride1'', tracking_start_time = Some 1000,
    location_history = None, tracking_sessions = [],
    users = [(''u1'', \<lparr>ud_rides = 3, ud_totalDistance = 40, ud_totalTime = 7200\<rparr>)],
    updatesRunning = True\<rparr>"
  by (simp add: svc_start_example updateTracking_def Let_def
      locationData_of_def or_zero_def truthy_def ctx_calculateDistance_same)

lemma svc_stop_failed_example:
  "svc_stopTracking stop_env_failing ''u1''
     \<lparr>trackingData =
      \<lparr>td_isTracking = True, td_startTime = Some 1000, td_endTime = None, td_duration = 5,
       td_distance = 0, td_currentSpeed = 36, td_maxSpeed = 36, td_minSpeed = Some 36,
       td_avgSpeed = 0,
       td_locationHistory = [point_start, point_same_place],
       td_currentLocation = Some sample_same_place\<rparr>,
    current_tracking_id = Some ''ride1'', tracking_start_time = Some 1000,
    location_history = None, tracking_sessions = [],
    users = [(''u1'', \<lparr>ud_rides = 3, ud_totalDistance = 40, ud_totalTime = 7200\<rparr>)],
    updatesRunning = True\<rparr> =
   (Failure ''unavailable'',
    \<lparr>trackingData =
      \<lparr>td_isTracking = False, td_startTime = Some 1000, td_endTime = Some 9000, td_duration = 5,
       td_distance = 0, td_currentSpeed = 36, td_maxSpeed = 36, td_minSpeed = Some 36,
       td_avgSpeed = 0,
       td_locationHistory = [point_start, point_same_place],
       td_currentLocation = Some sample_same_place\<rparr>,
    current_tracking_id = Some ''ride1'', tracking_start_time = Some 1000,
    location_history = None, tracking_sessions = [],
    users = [(''u1'', \<lparr>ud_rides = 3, ud_totalDistance = 40, ud_totalTime = 7200\<rparr>)],
    updatesRunning = False\<rparr>)"
  by (simp add: svc_stopTracking_def Let_def)

lemma svc_stop_retry_example:
  "svc_stopTracking stop_env_working ''u1''
     \<lparr>trackingData =
      \<lparr>td_isTracking = False, td_startTime = Some 1000, td_endTime = Some 9000, td_duration = 5,
       td_distance = 0, td_currentSpeed = 36, td_maxSpeed = 36, td_minSpeed = Some 36,
       td_avgSpeed = 0,
       td_locationHistory = [point_start, point_same_place],
       td_currentLocation = Some sample_same_place\<rparr>,
    current_tracking_id = Some ''ride1'', tracking_start_time = Some 1000,
    location_history = None, tracking_sessions = [],
    users = [(''u1'', \<lparr>ud_rides = 3, ud_totalDistance = 40, ud_totalTime = 7200\<rparr>)],
    updatesRunning = False\<rparr> =
   (Failure ''No active tracking session'',
    \<lparr>trackingData =
      \<lparr>td_isTracking = False, td_startTime = Some 1000, td_endTime = Some 9000, td_duration = 5,
       td_distance = 0, td_currentSpeed = 36, td_maxSpeed = 36, td_minSpeed = Some 36,
       td_avgSpeed = 0,
       td_locationHistory = [point_start, point_same_place],
       td_currentLocation = Some sample_same_place\<rparr>,
    current_tracking_id = Some ''ride1'', tracking_start_time = Some 1000,
    location_history = None, tracking_sessions = [],
    users = [(''u1'', \<lparr>ud_rides = 3, ud_totalDistance = 40, ud_totalTime = 7200\<rparr>)],
    updatesRunning = False\<rparr>)"
  by (simp add: svc_stopTracking_def)

lemma svc_stop_ok_example:
  "map fst (tracking_sessions (snd (svc_stopTracking stop_env_working ''u1''
     \<lparr>trackingData =
      \<lparr>td_isTracking = True, td_startTime = Some 1000, td_endTime = None, td_duration = 5,
       td_distance = 0, td_currentSpeed = 36, td_maxSpeed = 36, td_minSpeed = Some 36,
       td_avgSpeed = 0,
       td_locationHistory = [point_start, point_same_place],
       td_currentLocation = Some sample_same_place\<rparr>,
    current_tracking_id = Some ''ride1'', tracking_start_time = Some 1000,
    location_history = None, tracking_sessions = [],
    users = [(''u1'', \<lparr>ud_rides = 3, ud_totalDistance = 40, ud_totalTime = 7200\<rparr>)],
    updatesRunning = True\<rparr>))) = [''ride1'']"
  by (simp add: svc_stopTracking_def Let_def)

lemma ctx_stop_failure_keeps_session:
  assumes "activityDocRef s = Some d" and "cs_startTime (stats s) = Some t"
  shows "fst (ctx_stopTracking (Some uid) endTime (Some msg) s) = None"
    and "isTracking (snd (ctx_stopTracking (Some uid) endTime (Some msg) s)) = isTracking s"
    and "route (snd (ctx_stopTracking (Some uid) endTime (Some msg) s)) = route s"
    and "stats (snd (ctx_stopTracking (Some uid) endTime (Some msg) s)) =
           (stats s)\<lparr>cs_endTime := Some endTime\<rparr>"
    and "activityDocRef (snd (ctx_stopTracking (Some uid) endTime (Some msg) s)) = Some d"
  using assms
  by (simp_all add: ctx_stopTracking_def ctx_unsubscribe_def ctx_alert_def Let_def
      split: option.split)

lemma resume_distance_sum:
  "resume_distance calcDist h t =
     t + sum_list (map (\<lambda>(p, c). calcDist (latitude p) (longitude p) (latitude c) (longitude c))
                    (zip h (tl h)))"
  by (induction calcDist h t rule: resume_distance.induct) simp_all

lemma resume_speeds_frame:
  "td_isTracking (resume_speeds h td) = td_isTracking td"
  "td_startTime (resume_speeds h td) = td_startTime td"
  "td_locationHistory (resume_speeds h td) = td_locationHistory td"
  "td_distance (resume_speeds h td) = td_distance td"
  "td_avgSpeed (resume_speeds h td) = td_avgSpeed td"
  "td_duration (resume_speeds h td) = td_duration td"
  by (induction h td rule: resume_speeds.induct; simp add: Let_def)+

lemma resume_speeds_max:
  "td_maxSpeed (resume_speeds h td) =
     fold max (map (\<lambda>p. the (speed p) * 3.6) (filter (\<lambda>p. gt_zero (speed p)) h)) (td_maxSpeed td)"
  by (induction h td rule: resume_speeds.induct) (simp_all add: Let_def max.commute)

lemma checkForInterruptedTracking_Some:
  "checkForInterruptedTracking w = Some i \<Longrightarrow>
   current_tracking_id w = Some (in_trackingId i) \<and>
   tracking_start_time w = Some (in_startTime i) \<and>
   in_locationHistory i = (case location_history w of None \<Rightarrow> [] | Some h \<Rightarrow> h)"
  by (auto simp add: checkForInterruptedTracking_def split: option.splits if_splits)


lemma resume_speeds_frame2:
  "td_currentSpeed (resume_speeds h td) = td_currentSpeed td"
  "td_currentLocation (resume_speeds h td) = td_currentLocation td"
  by (induction h td rule: resume_speeds.induct; simp add: Let_def)+

lemma resume_speeds_min:
  "td_minSpeed (resume_speeds h td) =
     (case td_minSpeed td of
        None \<Rightarrow>
          (case map (\<lambda>p. the (speed p) * 3.6) (filter (\<lambda>p. gt_zero (speed p)) h) of
             [] \<Rightarrow> None
           | x # xs \<Rightarrow> Some (fold min xs x))
      | Some m \<Rightarrow>
          Some (fold min (map (\<lambda>p. the (speed p) * 3.6) (filter (\<lambda>p. gt_zero (speed p)) h)) m))"
  by (induction h td rule: resume_speeds.induct)
     (simp_all add: Let_def min.commute split: option.split)








section \<open>Symmetry and zeros of the distance calculator\<close>

text \<open>
  Claim C7. Both copies of the distance calculator are symmetric in their two points,
  give 0 for two identical points, and give the defined zero as soon as one of the four
  coordinates is falsy (unset, \<open>NaN\<close> or \<open>0\<close>).
\<close>

theorem C7_distance_symmetric_zero:
  "calculateDistance u lat1 lon1 lat2 lon2 = calculateDistance u lat2 lon2 lat1 lon1 \<and>
   ctx_calculateDistance lat1 lon1 lat2 lon2 = ctx_calculateDistance lat2 lon2 lat1 lon1 \<and>
   calculateDistance u lat1 lon1 lat1 lon1 = 0 \<and>
   ctx_calculateDistance lat1 lon1 lat1 lon1 = 0 \<and>
   (\<not> truthy lat1 \<or> \<not> truthy lon1 \<or> \<not> truthy lat2 \<or> \<not> truthy lon2 \<longrightarrow>
      calculateDistance u lat1 lon1 lat2 lon2 = 0 \<and>
      ctx_calculateDistance lat1 lon1 lat2 lon2 = 0)"
  using calculateDistance_sym [of u lat1 lon1 lat2 lon2]
    ctx_calculateDistance_sym [of lat1 lon1 lat2 lon2]
    calculateDistance_same [of u lat1 lon1]
    ctx_calculateDistance_same [of lat1 lon1]
    calculateDistance_falsy [of lat1 lon1 lat2 lon2 u]
    ctx_calculateDistance_falsy [of lat1 lon1 lat2 lon2]
  by blast


theorem C7_distance_symmetric_zero_witness:
  "\<not> truthy (Some 0) \<and>
   calculateDistance ''km'' (Some 0) (Some 10) (Some 1) (Some 11) = 0 \<and>
   ctx_calculateDistance (Some 0) (Some 10) (Some 1) (Some 11) = 0 \<and>
   calculateDistance ''km'' (Some 1) (Some 11) (Some 0) (Some 10) = 0 \<and>
   ctx_calculateDistance (Some 1) (Some 11) (Some 0) (Some 10) = 0"
  using C7_distance_symmetric_zero [of "''km''" "Some 0" "Some 10" "Some 1" "Some 11"]
  by (simp add: truthy_def)

section \<open>GPS-jump rejection in the paths that accumulate distance\<close>

text \<open>
  Claim C2, as stated: in every path that accumulates distance, a segment longer than
  0.1 km adds 0 to the total. The tracking service's \<open>updateTracking\<close> has no such
  test: started at latitude 90 and given a sample at latitude -90 (its imported distance
  function taken to be the haversine of the tracking context), it adds the whole
  \<open>6371 * pi\<close> km of the segment.
\<close>

theorem C2_jump_accumulated_by_service_counterexample:
  "0.1 < ctx_calculateDistance (Some 90) (Some 1) (Some (- 90)) (Some 1) \<and>
   td_distance (trackingData svc_started) = 0 \<and>
   td_distance (trackingData (updateTracking ctx_calculateDistance sample_jump
     svc_started)) = 6371 * pi \<and>
   6371 * pi \<noteq> (0 :: real)"
proof -
  have jump: "0.1 < ctx_calculateDistance (Some 90) (Some 1) (Some (- 90)) (Some 1)"
    using pole_jump by (simp add: ctx_pole_to_pole)
  have upd: "td_distance (trackingData (updateTracking ctx_calculateDistance
     sample_jump svc_started)) = 6371 * pi"
    by (simp add: svc_start_example updateTracking_def Let_def locationData_of_def
        ctx_pole_to_pole)
  show ?thesis
    using jump upd by (simp add: svc_start_example)
qed

text \<open>
  Claim C2, amended. In the batch loop of \<open>processRouteData\<close> and in the tracking
  context's \<open>updateStats\<close>, a segment whose distance, as that path's calculator returns
  it, exceeds 0.1 adds 0 to the total distance, and the sample is still appended to the
  context's route. The tracking service's \<open>updateTracking\<close> adds the distance of
  every segment to its total and appends every sample to its history.
\<close>

theorem C2_jump_rejected_in_hook_and_context:
  "(0.1 < calculateDistance pu (latitude p) (longitude p) (latitude c) (longitude c) \<longrightarrow>
      totalDistance (loop_body pu p c v) = totalDistance v \<and>
      totalDistance (route_loop pu (r @ [p, c]) loop_init) =
        totalDistance (route_loop pu (r @ [p]) loop_init)) \<and>
   (lastLocationRef s = Some (lat, lon) \<and>
    0.1 < ctx_calculateDistance lat lon (coords_latitude loc) (coords_longitude loc) \<longrightarrow>
      cs_distance (stats (handleLocationUpdate now loc s)) = cs_distance (stats s) \<and>
      route (handleLocationUpdate now loc s) = route s @ [locationData_of loc]) \<and>
   (td_isTracking (trackingData w) \<and> td_locationHistory (trackingData w) = pre @ [q] \<longrightarrow>
      td_distance (trackingData (updateTracking calcDist loc w)) =
        td_distance (trackingData w) +
        calcDist (latitude q) (longitude q) (coords_latitude loc) (coords_longitude loc) \<and>
      td_locationHistory (trackingData (updateTracking calcDist loc w)) =
        pre @ [q, locationData_of loc])"
proof -
  have a: "totalDistance (route_loop pu (r @ [p, c]) loop_init) =
        totalDistance (route_loop pu (r @ [p]) loop_init)"
    if "0.1 < calculateDistance pu (latitude p) (longitude p) (latitude c) (longitude c)"
    using that by (simp add: route_loop_snoc loop_body_jump)
  show ?thesis
    using a
    by (simp add: loop_body_totalDistance handleLocationUpdate_route
        handleLocationUpdate_distance updateTracking_distance updateTracking_history)
qed

theorem C2_jump_rejected_in_hook_and_context_witness:
  "0.1 < calculateDistance ''km'' (Some 90) (Some 1) (Some (- 90)) (Some 1) \<and>
   totalDistance (route_loop ''km'' [point_start, point_jump] loop_init) = 0 \<and>
   0.1 < ctx_calculateDistance (Some 90) (Some 1) (Some (- 90)) (Some 1) \<and>
   cs_distance (stats (handleLocationUpdate 6000 sample_jump ctx_started)) = 0 \<and>
   route (handleLocationUpdate 6000 sample_jump ctx_started) = [point_start, point_jump] \<and>
   td_locationHistory (trackingData (updateTracking ctx_calculateDistance sample_jump
     svc_started)) = [point_start, point_jump]"
proof -
  have jump: "0.1 < calculateDistance ''km'' (Some 90) (Some 1) (Some (- 90)) (Some 1)"
    using pole_jump by (simp add: hook_pole_to_pole)
  have cjump: "0.1 < ctx_calculateDistance (Some 90) (Some 1) (Some (- 90)) (Some 1)"
    using pole_jump by (simp add: ctx_pole_to_pole)
  show ?thesis
    using jump cjump
      C2_jump_rejected_in_hook_and_context [of "''km''"
        "point_start"
        "point_jump"
        loop_init "[]"
        "ctx_started"
        "Some 90" "Some 1"
        "sample_jump"
        6000
        "svc_started"
        "[]"
        "point_start"
        ctx_calculateDistance]
    by (simp add: ctx_start_example svc_start_example loop_init_def locationData_of_def
        or_zero_def)
qed

section \<open>A failed write during stop\<close>

text \<open>
  Claim C3. On the tracking service, when the write of the session document fails
  during \<open>stopTracking\<close> of an active session, the error is returned and the location
  history and the distance are kept, but \<open>isTracking\<close> has already been set to false:
  the session does not remain Active, and a second \<open>stopTracking\<close>, whatever the
  document store then answers, returns \<open>No active tracking session\<close> and leaves the
  state as it is, so the ride is not saved.
\<close>

theorem C3_stop_failure_deactivates_service:
  assumes "td_isTracking (trackingData w)"
    and "stopUpdates_error env = None"
    and "current_tracking_id w = Some trackingId"
    and "td_startTime (trackingData w) = Some start"
    and "set_error env = Some msg"
  shows "fst (svc_stopTracking env userId w) = Failure msg \<and>
         \<not> td_isTracking (trackingData (snd (svc_stopTracking env userId w))) \<and>
         td_locationHistory (trackingData (snd (svc_stopTracking env userId w))) =
           td_locationHistory (trackingData w) \<and>
         td_distance (trackingData (snd (svc_stopTracking env userId w))) =
           td_distance (trackingData w) \<and>
         tracking_sessions (snd (svc_stopTracking env userId w)) = tracking_sessions w \<and>
         svc_stopTracking env' userId (snd (svc_stopTracking env userId w)) =
           (Failure ''No active tracking session'', snd (svc_stopTracking env userId w))"
proof -
  have stop: "svc_stopTracking env userId w =
      (Failure msg,
       w\<lparr>updatesRunning := False,
         trackingData :=
           (if td_minSpeed (trackingData w) = None
            then (trackingData w)\<lparr>td_endTime := Some (stop_now env), td_isTracking := False,
                   td_minSpeed := Some 0\<rparr>
            else (trackingData w)\<lparr>td_endTime := Some (stop_now env),
                   td_isTracking := False\<rparr>)\<rparr>)"
    using assms by (simp add: svc_stopTracking_def Let_def)
  show ?thesis
    unfolding stop by (simp add: svc_stopTracking_def)
qed

text \<open>
  The same on a ride started, fed one sample and stopped while the document store
  rejects the write; with a working store the first \<open>stopTracking\<close> saves the session
  under the cached id.
\<close>

theorem C3_stop_failure_deactivates_service_witness:
  "td_isTracking (trackingData svc_active) \<and>
   fst (svc_stopTracking stop_env_failing ''u1'' svc_active) = Failure ''unavailable'' \<and>
   \<not> td_isTracking (trackingData svc_stop_failed) \<and>
   td_locationHistory (trackingData svc_stop_failed) = [point_start, point_same_place] \<and>
   fst (svc_stopTracking stop_env_working ''u1''
     svc_stop_failed) = Failure ''No active tracking session'' \<and>
   tracking_sessions (snd (svc_stopTracking stop_env_working ''u1'' svc_stop_failed)) = [] \<and>
   map fst (tracking_sessions (snd (svc_stopTracking stop_env_working ''u1''
     svc_active))) = [''ride1'']"
  using C3_stop_failure_deactivates_service [where w = "svc_active"
      and env = "stop_env_failing"
      and trackingId = "''ride1''" and start = 1000 and msg = "''unavailable''"
      and userId = "''u1''"
      and env' = "stop_env_working"]
  by (simp add: svc_active_example svc_stop_failed_example svc_stop_retry_example
      svc_stop_ok_example)

section \<open>Crash recovery\<close>

text \<open>
  Claim C4, as stated: the statistics rebuilt by crash recovery equal a from-scratch
  computation by the statistics algorithm, GPS-jump rejection included. With a cached
  history of two samples, one at latitude 90 and one at latitude -90 with a speed of
  10 m/s (the service's imported distance function taken to be the haversine of the
  tracking context), \<open>resumeInterruptedTracking\<close> restores a distance of
  \<open>6371 * pi\<close> km and a maximum speed of 36 km/h, where \<open>processRouteData\<close> over the
  same two samples gives 0 for both.
\<close>

theorem C4_resume_differs_from_batch_counterexample:
  "checkForInterruptedTracking cached_service =
     Some cached_session \<and>
   td_distance (trackingData (snd svc_resumed)) = 6371 * pi \<and>
   hs_distance (processRouteData ''km'' None 5 [point_start, point_jump]) = 0 \<and>
   td_maxSpeed (trackingData (snd svc_resumed)) = 36 \<and>
   hs_maxSpeed (processRouteData ''km'' None 5 [point_start, point_jump]) = 0 \<and>
   6371 * pi \<noteq> (0 :: real)"
  by (simp add: checkForInterruptedTracking_def service_initial_def
      resumeInterruptedTracking_def Let_def td_reset_def gt_zero_def ctx_pole_to_pole
      batch_jump_example)

text \<open>
  Claim C4, amended. When the cache holds a session id and a start time,
  \<open>checkForInterruptedTracking\<close> returns them with the cached samples, and
  \<open>resumeInterruptedTracking\<close> (the position fetch and the restart of the location
  updates succeeding) returns the cached id, sets \<open>isTracking\<close> with the location
  updates running, restores the start time and the samples, and writes no session
  document and no new id. The distance it restores is the sum of the distances of all
  consecutive segments, with no jump rejection; the maximum and the minimum speed are the
  largest and the smallest of the positive sample speeds in km/h over all cached samples
  (0 and none when no sample has a positive speed); current speed, average speed and
  duration are left at 0.
\<close>

theorem C4_resume_restores_cache_without_jump_rejection:
  assumes "checkForInterruptedTracking w = Some i"
  shows "current_tracking_id w = Some (in_trackingId i) \<and>
         tracking_start_time w = Some (in_startTime i) \<and>
         in_locationHistory i = (case location_history w of None \<Rightarrow> [] | Some h \<Rightarrow> h) \<and>
         fst (resumeInterruptedTracking calcDist (Inr loc) None i w) = Success (in_trackingId i) \<and>
         (let w' = snd (resumeInterruptedTracking calcDist (Inr loc) None i w);
              td = trackingData w'
          in td_isTracking td \<and> updatesRunning w' \<and>
             td_startTime td = Some (in_startTime i) \<and>
             td_locationHistory td = in_locationHistory i \<and>
             td_distance td =
               sum_list (map (\<lambda>(p, c). calcDist (latitude p) (longitude p) (latitude c) (longitude c))
                          (zip (in_locationHistory i) (tl (in_locationHistory i)))) \<and>
             td_maxSpeed td =
               fold max (map (\<lambda>p. the (speed p) * 3.6)
                          (filter (\<lambda>p. gt_zero (speed p)) (in_locationHistory i))) 0 \<and>
             td_minSpeed td =
               (case map (\<lambda>p. the (speed p) * 3.6)
                       (filter (\<lambda>p. gt_zero (speed p)) (in_locationHistory i)) of
                  [] \<Rightarrow> None
                | x # xs \<Rightarrow> Some (fold min xs x)) \<and>
             td_currentSpeed td = 0 \<and> td_currentLocation td = Some loc \<and>
             td_avgSpeed td = 0 \<and> td_duration td = 0 \<and>
             tracking_sessions w' = tracking_sessions w \<and>
             current_tracking_id w' = current_tracking_id w)"
proof -
  let ?h = "in_locationHistory i"
  have short: "sum_list (map (\<lambda>(p, c). calcDist (latitude p) (longitude p) (latitude c) (longitude c))
                 (zip ?h (tl ?h))) = 0" if "\<not> 1 < length ?h"
  proof (cases ?h)
    case Nil
    then show ?thesis by simp
  next
    case (Cons a l)
    with that have "l = []" by simp
    with Cons show ?thesis by simp
  qed
  have res: "fst (resumeInterruptedTracking calcDist (Inr loc) None i w) = Success (in_trackingId i)"
    by (simp add: resumeInterruptedTracking_def Let_def)
  have st: "(let w' = snd (resumeInterruptedTracking calcDist (Inr loc) None i w);
              td = trackingData w'
          in td_isTracking td \<and> updatesRunning w' \<and>
             td_startTime td = Some (in_startTime i) \<and>
             td_locationHistory td = in_locationHistory i \<and>
             td_distance td =
               sum_list (map (\<lambda>(p, c). calcDist (latitude p) (longitude p) (latitude c) (longitude c))
                          (zip (in_locationHistory i) (tl (in_locationHistory i)))) \<and>
             td_maxSpeed td =
               fold max (map (\<lambda>p. the (speed p) * 3.6)
                          (filter (\<lambda>p. gt_zero (speed p)) (in_locationHistory i))) 0 \<and>
             td_minSpeed td =
               (case map (\<lambda>p. the (speed p) * 3.6)
                       (filter (\<lambda>p. gt_zero (speed p)) (in_locationHistory i)) of
                  [] \<Rightarrow> None
                | x # xs \<Rightarrow> Some (fold min xs x)) \<and>
             td_currentSpeed td = 0 \<and> td_currentLocation td = Some loc \<and>
             td_avgSpeed td = 0 \<and> td_duration td = 0 \<and>
             tracking_sessions w' = tracking_sessions w \<and>
             current_tracking_id w' = current_tracking_id w)"
    using short
    by (simp add: resumeInterruptedTracking_def Let_def resume_speeds_frame resume_speeds_frame2 resume_speeds_max
        resume_speeds_min resume_distance_sum td_reset_def)
  show ?thesis
    using checkForInterruptedTracking_Some [OF assms] res st by simp
qed

theorem C4_resume_restores_cache_without_jump_rejection_witness:
  "checkForInterruptedTracking cached_service =
     Some cached_session \<and>
   fst svc_resumed = Success ''ride1'' \<and>
   td_isTracking (trackingData (snd svc_resumed)) \<and>
   td_distance (trackingData (snd svc_resumed)) = 6371 * pi \<and>
   td_maxSpeed (trackingData (snd svc_resumed)) = 36 \<and>
   td_minSpeed (trackingData (snd svc_resumed)) = Some 36 \<and>
   td_duration (trackingData (snd svc_resumed)) = 0 \<and>
   tracking_sessions (snd svc_resumed) = [] \<and>
   current_tracking_id (snd svc_resumed) = Some ''ride1''"
proof -
  have found: "checkForInterruptedTracking
     cached_service =
     Some cached_session"
    by (simp add: checkForInterruptedTracking_def service_initial_def)
  show ?thesis
    using found
      C4_resume_restores_cache_without_jump_rejection [OF found, of ctx_calculateDistance
        "sample_after_restart"]
    by (simp add: Let_def ctx_pole_to_pole service_initial_def gt_zero_def)
qed

section \<open>Start while a session is in progress\<close>

text \<open>
  Claim C5, as stated: start while a session is Active or Paused is a no-op. The
  tracking context guards on \<open>isTracking\<close> alone, which is false while paused: a session
  started, fed one sample and paused, and then started again, has its route and
  statistics reset, a new subscription opened and a second ride document created.
\<close>

theorem C5_start_while_paused_counterexample:
  "\<not> isTracking ctx_paused \<and>
   activityDocRef ctx_paused = Some 11 \<and>
   cs_maxSpeed (stats ctx_paused) = 36 \<and>
   cs_maxSpeed (stats ctx_restarted) = 0 \<and>
   route ctx_restarted = [point_elsewhere] \<and>
   map fst (rides ctx_restarted) = [11, 12] \<and>
   locationSubscription ctx_restarted = Some 8"
  by (simp add: ctx_paused_example ctx_restart_example)

text \<open>
  Claim C5, amended. In the tracking context, \<open>startTracking\<close> called while
  \<open>isTracking\<close> is true (the Active state) returns at once: the route, the statistics,
  the subscription, the ride documents and every other part of the state are unchanged.
\<close>

theorem C5_start_while_active_is_noop:
  "isTracking s \<Longrightarrow> ctx_startTracking user env s = s"
  by (simp add: ctx_startTracking_def)

theorem C5_start_while_active_is_noop_witness:
  "isTracking ctx_active \<and>
   ctx_startTracking (Some ''u1'') ctx_env_second ctx_active = ctx_active"
proof -
  have active: "isTracking ctx_active"
    by (simp add: ctx_active_example)
  show ?thesis
    using active C5_start_while_active_is_noop [OF active, of "Some ''u1''"
        "ctx_env_second"]
    by simp
qed

section \<open>Calorie estimate\<close>




section \<open>Unit conversion\<close>

text \<open>
  Claim C8, as stated: a distance converted from km to miles and back by the hook's
  \<open>convertDistance\<close> is recovered within \<open>1e-6\<close>. The km-to-mi step needs a hook
  whose preferred unit is \<open>'km'\<close>, the way back one whose preferred unit is \<open>'mi'\<close>.
  At 0.004 km the first step already rounds to \<open>0.00\<close>, so the claim fails.
\<close>

theorem C8_round_trip_counterexample:
  "\<not> \<bar>convertDistance ''mi'' (convertDistance ''km'' (1 / 250) ''mi'') ''km'' - 1 / 250\<bar>
       \<le> 1 / 10 ^ 6"
  by (simp add: convertDistance_def toFixed_def)

text \<open>
  Claim C8, amended: each conversion is rounded to two decimals by \<open>toFixed(2)\<close>, and
  the round trip recovers the original value within 0.0131.
\<close>

theorem C8_round_trip_two_decimals:
  "\<bar>convertDistance ''mi'' (convertDistance ''km'' d ''mi'') ''km'' - d\<bar> \<le> 131 / 10000"
proof -
  define m where "m = toFixed 2 (d * 0.621371)"
  define b where "b = toFixed 2 (m / 0.621371)"
  have rt: "convertDistance ''mi'' (convertDistance ''km'' d ''mi'') ''km'' = b"
    by (simp add: convertDistance_def m_def b_def)
  have m1: "\<bar>m - d * 0.621371\<bar> \<le> 1 / 200"
    using toFixed_near [of 2 "d * 0.621371"] by (simp add: m_def)
  have b1: "\<bar>b - m / 0.621371\<bar> \<le> 1 / 200"
    using toFixed_near [of 2 "m / 0.621371"] by (simp add: b_def)
  have "\<bar>m / 0.621371 - d\<bar> = \<bar>m - d * 0.621371\<bar> / 0.621371"
    by (simp add: field_simps)
  also have "\<dots> \<le> (1 / 200) / 0.621371"
    using divide_right_mono [OF m1, of "0.621371"] by simp
  finally have m2: "\<bar>m / 0.621371 - d\<bar> \<le> 81 / 10000"
    by simp
  have "\<bar>b - d\<bar> \<le> \<bar>b - m / 0.621371\<bar> + \<bar>m / 0.621371 - d\<bar>"
    by simp
  with b1 m2 have "\<bar>b - d\<bar> \<le> 131 / 10000" by simp
  with rt show ?thesis by simp
qed

section \<open>GPS jumps in the batch computation\<close>

text \<open>
  Claim C9. In \<open>processRouteData\<close>, an iteration whose segment is longer than the 0.1
  threshold is skipped whole: every loop variable (total distance, maximum, minimum, sum
  and count of speeds, and the speed, pace and altitude series) is left as it was, so the
  loop over a route ending in such a sample equals the loop over the route without it.
  The elevation gain is computed apart, over all consecutive pairs, and still counts the
  climb to that sample. For a route of three or more samples, the resulting stats differ
  from those without the last sample in the elevation gain only.
\<close>

theorem C9_jump_sample_skipped_but_climbs:
  assumes jump: "0.1 < calculateDistance pu (latitude p) (longitude p) (latitude c) (longitude c)"
  shows "loop_body pu p c v = v \<and>
         route_loop pu (r @ [p, c]) loop_init = route_loop pu (r @ [p]) loop_init \<and>
         calculateElevationGain (r @ [p, c]) =
           calculateElevationGain (r @ [p]) + max 0 (or_zero (altitude c) - or_zero (altitude p)) \<and>
         (r \<noteq> [] \<longrightarrow>
            processRouteData pu w dur (r @ [p, c]) =
              (processRouteData pu w dur (r @ [p]))
                \<lparr>hs_elevationGain := toFixed 1 (calculateElevationGain (r @ [p, c]))\<rparr>)"
proof -
  have body: "loop_body pu p c v = v" for v
    using jump by (rule loop_body_jump)
  have loop: "route_loop pu (r @ [p, c]) loop_init = route_loop pu (r @ [p]) loop_init"
    by (simp add: route_loop_snoc body)
  have stats: "processRouteData pu w dur (r @ [p, c]) =
      (processRouteData pu w dur (r @ [p]))
        \<lparr>hs_elevationGain := toFixed 1 (calculateElevationGain (r @ [p, c]))\<rparr>" if "r \<noteq> []"
  proof -
    from that have len: "\<not> length (r @ [p]) < 2" "\<not> length (r @ [p, c]) < 2"
      by (cases r; simp)+
    show ?thesis
      unfolding processRouteData_def Let_def using len loop by simp
  qed
  show ?thesis
    using body loop calculateElevationGain_snoc [of r p c] stats by blast
qed

theorem C9_jump_sample_skipped_but_climbs_witness:
  "0.1 < calculateDistance ''km'' (Some 90) (Some 1) (Some (- 90)) (Some 1) \<and>
   [polar_first] \<noteq> [] \<and>
   hs_speedData (processRouteData ''km'' None 10 [polar_first, polar_second, polar_jump]) = [] \<and>
   hs_maxSpeed (processRouteData ''km'' None 10 [polar_first, polar_second, polar_jump]) = 0 \<and>
   hs_altitudeData (processRouteData ''km'' None 10 [polar_first, polar_second, polar_jump]) = [(5000, 100)] \<and>
   hs_elevationGain (processRouteData ''km'' None 10 [polar_first, polar_second, polar_jump]) = 50"
proof -
  have jump: "0.1 < calculateDistance ''km'' (Some 90) (Some 1) (Some (- 90)) (Some 1)"
    using pole_jump by (simp add: hook_pole_to_pole)
  have stay: "calculateDistance ''km'' (Some 90) (Some 1) (Some 90) (Some 1) = 0"
    by (rule calculateDistance_same)
  have base: "processRouteData ''km'' None 10
     [polar_first, polar_second]
     = \<lparr>hs_distance = 0, hs_averageSpeed = 0, hs_maxSpeed = 0, hs_minSpeed = 0,
         hs_elevationGain = 0, hs_caloriesBurned = 1,
         hs_speedData = [], hs_altitudeData = [(5000, 100)], hs_pacesData = []\<rparr>"
    by (simp add: processRouteData_def Let_def loop_body_def loop_init_def stay truthy_def
        toFixed_def calculateElevationGain_def or_zero_def calculateCalories_def js_round_def)
  show ?thesis
    using jump base
      C9_jump_sample_skipped_but_climbs [of "''km''"
        "polar_second"
        "polar_jump" loop_init
        "[polar_first]"
        None 10]
    by (simp add: calculateElevationGain_def or_zero_def toFixed_def)
qed

section \<open>Samples delivered while the service is not tracking\<close>

text \<open>
  Claim C10. When \<open>isTracking\<close> is false, \<open>updateTracking\<close> returns at once: the
  tracking data (location history, distance, current, maximum, minimum and average
  speed, duration, current location) and the cached history are all as before, for one
  sample and for any sequence of samples.
\<close>

theorem C10_update_ignored_when_not_tracking:
  assumes "\<not> td_isTracking (trackingData w)"
  shows "updateTracking calcDist loc w = w \<and> svc_feed calcDist locs w = w"
proof -
  have one: "updateTracking calcDist l w = w" for l
    using assms by (simp add: updateTracking_def)
  have "svc_feed calcDist locs w = w"
    by (induction locs) (simp_all add: one)
  with one show ?thesis by simp
qed

theorem C10_update_ignored_when_not_tracking_witness:
  "\<not> td_isTracking (trackingData svc_paused) \<and>
   updateTracking ctx_calculateDistance sample_jump svc_paused = svc_paused"
proof -
  have paused: "\<not> td_isTracking (trackingData svc_paused)"
    by (simp add: svc_start_example svc_pauseTracking_def)
  show ?thesis
    using paused C10_update_ignored_when_not_tracking [OF paused, of ctx_calculateDistance
        "sample_jump" "[]"]
    by simp
qed

section \<open>Batch recomputation against the incremental paths\<close>

text \<open>
  Claim C1, as stated: the batch path and the incremental paths give the same total
  distance, maximum, minimum and average speed and duration over the same samples. One
  sample 5 seconds after the start, at the starting point and with a speed of 10 m/s,
  separates them: the batch average speed is the mean of the positive sample speeds, 36,
  while both incremental paths divide the distance by the elapsed time and report 0.
  A jump from latitude 90 to latitude -90 is dropped by the batch path and added whole
  by the tracking service.
\<close>

theorem C1_paths_disagree_counterexample:
  "hs_averageSpeed (processRouteData ''km'' None 5 (route ctx_fed)) = 36 \<and>
   cs_averageSpeed (stats ctx_fed) = 0 \<and>
   hs_averageSpeed (processRouteData ''km'' None 5
     (td_locationHistory (trackingData svc_fed))) = 36 \<and>
   td_avgSpeed (trackingData svc_fed) = 0 \<and>
   hs_distance (processRouteData ''km'' None 5
     (td_locationHistory (trackingData svc_fed_jump))) = 0 \<and>
   td_distance (trackingData svc_fed_jump) = 6371 * pi \<and>
   6371 * pi \<noteq> (0 :: real)"
  by (simp add: ctx_feed_example svc_feed_example svc_feed_jump_example batch_example
      batch_jump_example)

text \<open>
  Claim C1, amended. Let the same samples be fed to the tracking context
  (\<open>handleLocationUpdate\<close>, \<open>updateStats\<close>) and to the tracking service
  (\<open>updateTracking\<close>, its distance function being the haversine in km), each started at
  the same first sample, and let \<open>processRouteData\<close> run in a unit other than miles over
  the route so stored. If every consecutive segment is shorter than 0.1 km, then all
  three hold the same route, the batch distance is the two-decimal rounding of the
  distance of either incremental path, the batch maximum speed the one-decimal rounding
  of their maximum speed, and the batch minimum speed that of the service's (0 for none).
  Average speed and duration are computed differently by the paths and are not part of
  the agreement.
\<close>

theorem C1_paths_agree_without_jumps:
  assumes "pu \<noteq> ''mi''"
    and "short_segments (p0 # map (\<lambda>e. locationData_of (snd e)) evs)"
    and "route s0 = [p0]"
    and "lastLocationRef s0 = Some (latitude p0, longitude p0)"
    and "cs_distance (stats s0) = 0" and "cs_maxSpeed (stats s0) = 0"
    and "td_isTracking (trackingData w0)"
    and "td_locationHistory (trackingData w0) = [p0]"
    and "td_distance (trackingData w0) = 0" and "td_maxSpeed (trackingData w0) = 0"
    and "td_minSpeed (trackingData w0) = None"
  shows "route (ctx_feed evs s0) = p0 # map (\<lambda>e. locationData_of (snd e)) evs \<and>
         td_locationHistory (trackingData (svc_feed ctx_calculateDistance (map snd evs) w0)) =
           route (ctx_feed evs s0) \<and>
         hs_distance (processRouteData pu wt dur (route (ctx_feed evs s0))) =
           toFixed 2 (cs_distance (stats (ctx_feed evs s0))) \<and>
         hs_maxSpeed (processRouteData pu wt dur (route (ctx_feed evs s0))) =
           toFixed 1 (cs_maxSpeed (stats (ctx_feed evs s0))) \<and>
         hs_distance (processRouteData pu wt dur (route (ctx_feed evs s0))) =
           toFixed 2 (td_distance (trackingData (svc_feed ctx_calculateDistance (map snd evs) w0))) \<and>
         hs_maxSpeed (processRouteData pu wt dur (route (ctx_feed evs s0))) =
           toFixed 1 (td_maxSpeed (trackingData (svc_feed ctx_calculateDistance (map snd evs) w0))) \<and>
         hs_minSpeed (processRouteData pu wt dur (route (ctx_feed evs s0))) =
           (case td_minSpeed (trackingData (svc_feed ctx_calculateDistance (map snd evs) w0)) of
              None \<Rightarrow> 0 | Some m \<Rightarrow> toFixed 1 m)"
proof -
  let ?pts = "map (\<lambda>e. locationData_of (snd e)) evs"
  have r: "route (ctx_feed evs s0) = p0 # ?pts"
    using assms(3) by (simp add: ctx_feed_route)
  have c: "totalDistance (route_loop pu (p0 # ?pts) loop_init) = cs_distance (stats (ctx_feed evs s0))"
          "maxSpeed (route_loop pu (p0 # ?pts) loop_init) = cs_maxSpeed (stats (ctx_feed evs s0))"
    using ctx_feed_agrees [OF assms(1), of s0 p0 loop_init evs] assms(2,4,5,6)
    by (simp_all add: loop_init_def)
  have short': "short_segments (p0 # map locationData_of (map snd evs))"
    using assms(2) by (simp add: comp_def)
  have s: "td_locationHistory (trackingData (svc_feed ctx_calculateDistance (map snd evs) w0)) = p0 # ?pts"
     "totalDistance (route_loop pu (p0 # ?pts) loop_init) =
        td_distance (trackingData (svc_feed ctx_calculateDistance (map snd evs) w0))"
     "maxSpeed (route_loop pu (p0 # ?pts) loop_init) =
        td_maxSpeed (trackingData (svc_feed ctx_calculateDistance (map snd evs) w0))"
     "minSpeed (route_loop pu (p0 # ?pts) loop_init) =
        td_minSpeed (trackingData (svc_feed ctx_calculateDistance (map snd evs) w0))"
    using svc_feed_agrees [OF assms(1), of w0 "[]" p0 loop_init "map snd evs"]
      assms(7,8,9,10,11) short'
    by (simp_all add: loop_init_def comp_def)
  show ?thesis
    unfolding r processRouteData_fields using c s by simp
qed

theorem C1_paths_agree_without_jumps_witness:
  "''km'' \<noteq> ''mi'' \<and>
   short_segments [point_start, point_same_place] \<and>
   route ctx_fed = [point_start, point_same_place] \<and>
   td_locationHistory (trackingData svc_fed) = [point_start, point_same_place] \<and>
   hs_distance (processRouteData ''km'' None 5 (route ctx_fed)) = 0 \<and>
   hs_maxSpeed (processRouteData ''km'' None 5 (route ctx_fed)) = 36 \<and>
   hs_minSpeed (processRouteData ''km'' None 5 (route ctx_fed)) = 36 \<and>
   cs_maxSpeed (stats ctx_fed) = 36 \<and>
   td_maxSpeed (trackingData svc_fed) = 36 \<and>
   td_minSpeed (trackingData svc_fed) = Some 36"
proof -
  have km: "''km'' \<noteq> ''mi''" by simp
  have short: "short_segments (
      point_start #
      map (\<lambda>e. locationData_of (snd e)) [(6000 :: int, sample_same_place)])"
    by (simp add: locationData_of_def or_zero_def ctx_calculateDistance_same)
  have s0: "route ctx_started =
      [point_start]"
    "lastLocationRef ctx_started = Some (latitude point_start, longitude point_start)"
    "cs_distance (stats ctx_started) = 0"
    "cs_maxSpeed (stats ctx_started) = 0"
    by (simp_all add: ctx_start_example)
  have w0: "td_isTracking (trackingData svc_started)"
    "td_locationHistory (trackingData svc_started) = [point_start]"
    "td_distance (trackingData svc_started) = 0"
    "td_maxSpeed (trackingData svc_started) = 0"
    "td_minSpeed (trackingData svc_started) = None"
    by (simp_all add: svc_start_example)
  show ?thesis
    using C1_paths_agree_without_jumps [OF km short s0 w0, of None 5]
    by (simp add: ctx_feed_example svc_feed_example toFixed_def ctx_calculateDistance_same
        locationData_of_def or_zero_def)
qed

end
